theory Spec2Isabelle
  imports Complex_Main "HOL-Library.Char_ord" "HOL-Library.List_Lexorder" "HOL-Library.Log_Nat"
begin

section \<open>Exceptions and storage\<close>

text \<open>
  The exceptions of the Python program, as values. \<open>HTTPException\<close> carries the status
  code; its text (\<open>detail\<close>) is kept where the source gives a literal.
  \<open>OtherError\<close> stands for every other subclass of \<open>Exception\<close> (a Redis
  connection error, a pickling error and so on). An \<open>except ValueError\<close> clause
  catches exactly the values built with \<open>ValueError\<close>; an \<open>except Exception\<close>
  clause catches all of them, \<open>HTTPException\<close> included.
\<close>

datatype exn =
    ValueError string
  | KeyError string
  | TypeError string
  | HTTPException nat string
  | OtherError string

type_synonym 'a result = "exn + 'a"

text \<open>A naive timestamp, as \<open>datetime\<close> without time zone.\<close>

record datetime =
  year :: nat
  month :: nat
  day :: nat
  hour :: nat
  minute :: nat
  second :: nat

text \<open>The rows of \<open>app/models.py\<close> that the prediction pipeline reads.\<close>

record Route =
  route_id :: string
  route_long_name :: string
  route_type :: int

record Stop =
  stop_id :: string
  stop_name :: string
  stop_latitude :: rat
  stop_longitude :: rat
  stop_zone_id :: "string option"

record Trip =
  trip_id :: string
  trip_route_id :: string

record Observation =
  obs_id :: int
  obs_trip_id :: string
  obs_stop_id :: string
  observation_time :: datetime
  boarding_count :: int
  alighting_count :: int
  crowd_level :: "string option"
  weather_condition :: "string option"
  temperature :: "rat option"
  obs_notes :: "string option"

record database =
  routes :: "Route list"
  trips :: "Trip list"
  stops :: "Stop list"
  observations :: "Observation list"

text \<open>\<open>db.query(M).filter(M.id == x).first()\<close>: the first row with that key, or \<open>None\<close>.\<close>

definition query_trip :: "database \<Rightarrow> string \<Rightarrow> Trip option" where
  "query_trip db k = find (\<lambda>t. trip_id t = k) (trips db)"

definition query_stop :: "database \<Rightarrow> string \<Rightarrow> Stop option" where
  "query_stop db k = find (\<lambda>s. stop_id s = k) (stops db)"

definition query_route :: "database \<Rightarrow> string \<Rightarrow> Route option" where
  "query_route db k = find (\<lambda>r. route_id r = k) (routes db)"

section \<open>Historical averager (\<open>app/api.py\<close>, \<open>_get_historical_average\<close>)\<close>

text \<open>
  \<open>int(sum(...) / len(result))\<close>: Python adds the integers exactly, divides the two
  integers as a 64-bit float and \<open>int\<close> cuts the fraction off, towards zero. The
  division is correctly rounded: its result is the double nearest to the exact quotient,
  with a tie going to the even significand, and it raises \<open>OverflowError\<close> when that
  is beyond the range of a double. A double is written here as the rational it stands for.

  \<open>scaled_quotient a n t\<close> is \<open>a / n * 2 ^ t\<close>; \<open>float_exponent a n\<close> is the \<open>e\<close>
  with \<open>2 ^ e \<le> a / n < 2 ^ (e + 1)\<close>, so that a significand of 53 bits has the unit
  \<open>2 ^ (e - 52)\<close>, and no unit is below \<open>2 ^ -1074\<close>.
\<close>

definition scaled_quotient :: "int \<Rightarrow> int \<Rightarrow> int \<Rightarrow> rat" where
  "scaled_quotient a n t = of_int (a * 2 ^ nat t) / of_int (n * 2 ^ nat (- t))"

definition float_exponent :: "int \<Rightarrow> int \<Rightarrow> int" where
  "float_exponent a n =
     (let d = bitlen a - bitlen n in if 1 \<le> scaled_quotient a n (- d) then d else d - 1)"

definition round_half_even :: "rat \<Rightarrow> int" where
  "round_half_even x =
     (let f = \<lfloor>x\<rfloor>; r = x - of_int f
      in if r < 1 / 2 then f else if 1 / 2 < r then f + 1 else if even f then f else f + 1)"

text \<open>\<open>s / n\<close> for integers and \<open>0 < n\<close>; \<open>None\<close> is the \<open>OverflowError\<close>.\<close>

definition true_divide :: "int \<Rightarrow> int \<Rightarrow> rat option" where
  "true_divide s n =
     (if s = 0 then Some 0
      else
        (let a = \<bar>s\<bar>;
             t = min (52 - float_exponent a n) 1074;
             m = round_half_even (scaled_quotient a n t)
         in if 2 ^ 1024 \<le> scaled_quotient m 1 (- t) then None
            else Some (of_int (sgn s) * scaled_quotient m 1 (- t))))"

definition int_of_float :: "rat \<Rightarrow> int" where
  "int_of_float v = (if 0 \<le> v then \<lfloor>v\<rfloor> else \<lceil>v\<rceil>)"

definition matching_counts :: "string \<Rightarrow> string \<Rightarrow> database \<Rightarrow> int list" where
  "matching_counts trip stop db =
     map boarding_count
       (filter (\<lambda>ob. obs_trip_id ob = trip \<and> obs_stop_id ob = stop) (observations db))"

text \<open>
  The whole body is inside \<open>try\<close>: an \<open>OverflowError\<close> of the division is caught,
  logged, and the function returns \<open>None\<close>.
\<close>

definition get_historical_average :: "string \<Rightarrow> string \<Rightarrow> database \<Rightarrow> int option" where
  "get_historical_average trip stop db =
     (let result = matching_counts trip stop db
      in if result \<noteq> [] then
           (case true_divide (sum_list result) (int (length result)) of
              None \<Rightarrow> None
            | Some avg_boarding \<Rightarrow> Some (int_of_float avg_boarding))
         else None)"

text \<open>The arithmetic mean of the spec, over the reals, and its truncation.\<close>

definition mean :: "int list \<Rightarrow> real" where
  "mean xs = real_of_int (sum_list xs) / real (length xs)"

definition truncate_real :: "real \<Rightarrow> int" where
  "truncate_real x = (if 0 \<le> x then \<lfloor>x\<rfloor> else \<lceil>x\<rceil>)"

definition sample_time :: datetime where
  "sample_time = \<lparr>year = 2024, month = 1, day = 15, hour = 8, minute = 0, second = 0\<rparr>"

definition observe :: "string \<Rightarrow> string \<Rightarrow> int \<Rightarrow> string option \<Rightarrow> Observation" where
  "observe t s n lv =
     \<lparr>obs_id = 0, obs_trip_id = t, obs_stop_id = s, observation_time = sample_time,
      boarding_count = n, alighting_count = 0, crowd_level = lv,
      weather_condition = None, temperature = None, obs_notes = None\<rparr>"

definition db_10_20_30 :: database where
  "db_10_20_30 =
     \<lparr>routes = [], trips = [], stops = [],
      observations = [observe ''t'' ''s'' 10 None, observe ''u'' ''s'' 7 None,
                      observe ''t'' ''s'' 20 None, observe ''t'' ''s'' 30 None]\<rparr>"

text \<open>One observation whose boarding count is \<open>2 ^ 53 + 1\<close>.\<close>

definition db_large :: database where
  "db_large =
     \<lparr>routes = [], trips = [], stops = [],
      observations = [observe ''t'' ''s'' 9007199254740993 None]\<rparr>"

section \<open>Python values and the prediction response (\<open>app/schemas.py\<close>)\<close>

text \<open>
  The values \<open>json.loads\<close> can return and \<open>json.dumps\<close> can take. \<open>PyNone\<close> is
  Python's \<open>None\<close>; \<open>truthy\<close> is what \<open>if x:\<close> tests.
\<close>

datatype pyval =
    PyNone
  | PyBool bool
  | PyInt int
  | PyFloat rat
  | PyStr string
  | PyList "pyval list"
  | PyDict "(string \<times> pyval) list"

fun truthy :: "pyval \<Rightarrow> bool" where
  "truthy PyNone = False"
| "truthy (PyBool b) = b"
| "truthy (PyInt i) = (i \<noteq> 0)"
| "truthy (PyFloat q) = (q \<noteq> 0)"
| "truthy (PyStr s) = (s \<noteq> [])"
| "truthy (PyList xs) = (xs \<noteq> [])"
| "truthy (PyDict kvs) = (kvs \<noteq> [])"

record PredictionRequest =
  req_trip_id :: string
  req_stop_id :: string
  req_departure_time :: string
  req_date :: string

record PredictionResponse =
  resp_trip_id :: string
  resp_stop_id :: string
  resp_departure_time :: string
  resp_date :: string
  predicted_crowd_level :: string
  confidence :: rat
  historical_average :: "int option"
  features_used :: "string list"

text \<open>\<open>response.dict()\<close>: the fields in declaration order.\<close>

definition response_dict :: "PredictionResponse \<Rightarrow> pyval" where
  "response_dict r =
     PyDict [(''trip_id'', PyStr (resp_trip_id r)),
             (''stop_id'', PyStr (resp_stop_id r)),
             (''departure_time'', PyStr (resp_departure_time r)),
             (''date'', PyStr (resp_date r)),
             (''predicted_crowd_level'', PyStr (predicted_crowd_level r)),
             (''confidence'', PyFloat (confidence r)),
             (''historical_average'',
                (case historical_average r of None \<Rightarrow> PyNone | Some n \<Rightarrow> PyInt n)),
             (''features_used'', PyList (map PyStr (features_used r)))]"

section \<open>The Redis store behind the cache\<close>

text \<open>
  The store is outside the repository; the model keeps what the cache manager can observe
  of it. Each entry has a key, the stored bytes and the time at which it expires.
  \<open>reachable\<close> says whether a command sent now is answered; when it is not, the client
  raises and the command has no effect. An entry is visible while the clock is before its
  expiry.
\<close>

record redis =
  reachable :: bool
  entries :: "(string \<times> string \<times> nat) list"

definition connection_error :: exn where
  "connection_error = OtherError ''redis.exceptions.ConnectionError''"

definition live :: "nat \<Rightarrow> (string \<times> string \<times> nat) \<Rightarrow> bool" where
  "live now e = (now < snd (snd e))"

definition redis_get :: "redis \<Rightarrow> nat \<Rightarrow> string \<Rightarrow> (string option) result" where
  "redis_get r now k =
     (if \<not> reachable r then Inl connection_error
      else Inr (map_option fst (map_of (filter (live now) (entries r)) k)))"

text \<open>\<open>SETEX key seconds value\<close>; Redis rejects an expiry that is not positive.\<close>

definition redis_setex :: "redis \<Rightarrow> nat \<Rightarrow> string \<Rightarrow> int \<Rightarrow> string \<Rightarrow> unit result \<times> redis" where
  "redis_setex r now k seconds v =
     (if \<not> reachable r then (Inl connection_error, r)
      else if seconds \<le> 0 then (Inl (OtherError ''invalid expire time in setex''), r)
      else (Inr (),
            r\<lparr>entries := (k, v, now + nat seconds) # filter (\<lambda>e. fst e \<noteq> k) (entries r)\<rparr>))"

text \<open>
  The glob matcher of \<open>KEYS pattern\<close>, after the matcher of the Redis server:
  \<open>*\<close> matches any run of characters, \<open>?\<close> one character, \<open>[...]\<close> a class
  (\<open>^\<close> negates, \<open>a-z\<close> is a range), and a backslash takes the next character
  literally. The first argument is \<open>None\<close> outside a class and inside one holds
  whether the class is negated and whether the current character has matched so far.
\<close>

fun skip_stars :: "string \<Rightarrow> string" where
  "skip_stars [] = []"
| "skip_stars (p # ps) = (if p = CHR ''*'' then skip_stars ps else p # ps)"

definition in_range :: "char \<Rightarrow> char \<Rightarrow> char \<Rightarrow> bool" where
  "in_range a b c =
     (let lo = min (of_char a :: nat) (of_char b); hi = max (of_char a :: nat) (of_char b)
      in lo \<le> of_char c \<and> of_char c \<le> hi)"

fun glob :: "(bool \<times> bool) option \<Rightarrow> string \<Rightarrow> string \<Rightarrow> bool" where
  "glob None [] s = (s = [])"
| "glob None (p # ps) [] = False"
| "glob None (p # ps) (c # cs) =
     (if p = CHR ''*'' then
        (if skip_stars ps = [] then True
         else glob None ps (c # cs) \<or> (cs \<noteq> [] \<and> glob None (p # ps) cs))
      else if p = CHR ''?'' then
        (if cs = [] then skip_stars ps = [] else glob None ps cs)
      else if p = CHR ''['' then
        (case ps of
           q # qs \<Rightarrow> if q = CHR ''^'' then glob (Some (True, False)) qs (c # cs)
                     else glob (Some (False, False)) ps (c # cs)
         | [] \<Rightarrow> glob (Some (False, False)) ps (c # cs))
      else if p = CHR 0x5C then
        (case ps of
           q # qs \<Rightarrow> if q = c then (if cs = [] then skip_stars qs = [] else glob None qs cs)
                     else False
         | [] \<Rightarrow> if p = c then cs = [] else False)
      else if p = c then (if cs = [] then skip_stars ps = [] else glob None ps cs)
      else False)"
| "glob (Some (neg, m)) [] [] = False"
| "glob (Some (neg, m)) [] (c # cs) = (if neg \<noteq> m then cs = [] else False)"
| "glob (Some (neg, m)) (p # ps) [] = False"
| "glob (Some (neg, m)) (p # ps) (c # cs) =
     (if p = CHR 0x5C \<and> ps \<noteq> [] then
        (case ps of q # qs \<Rightarrow> glob (Some (neg, m \<or> q = c)) qs (c # cs) | [] \<Rightarrow> False)
      else if p = CHR '']'' then
        (if neg \<noteq> m then (if cs = [] then skip_stars ps = [] else glob None ps cs)
         else False)
      else
        (case ps of
           d # e # rest \<Rightarrow>
             if d = CHR ''-'' then glob (Some (neg, m \<or> in_range p e c)) rest (c # cs)
             else glob (Some (neg, m \<or> p = c)) ps (c # cs)
         | _ \<Rightarrow> glob (Some (neg, m \<or> p = c)) ps (c # cs)))"

definition stringmatch :: "string \<Rightarrow> string \<Rightarrow> bool" where
  "stringmatch pattern s = glob None pattern s"

definition redis_keys :: "redis \<Rightarrow> nat \<Rightarrow> string \<Rightarrow> (string list) result" where
  "redis_keys r now pattern =
     (if \<not> reachable r then Inl connection_error
      else Inr (filter (stringmatch pattern) (map fst (filter (live now) (entries r)))))"

definition redis_delete :: "redis \<Rightarrow> string list \<Rightarrow> unit result \<times> redis" where
  "redis_delete r ks =
     (if \<not> reachable r then (Inl connection_error, r)
      else (Inr (), r\<lparr>entries := filter (\<lambda>e. fst e \<notin> set ks) (entries r)\<rparr>))"

section \<open>Cache manager (\<open>app/cache.py\<close>)\<close>

text \<open>
  \<open>json.loads\<close> and \<open>json.dumps\<close> are taken as given functions; \<open>None\<close> means
  that the call raises.
\<close>

record CacheManager =
  redis_client :: redis
  ttl :: int

definition cache_key :: "string \<Rightarrow> string \<Rightarrow> string \<Rightarrow> string \<Rightarrow> string" where
  "cache_key trip stop departure date =
     ''prediction:'' @ trip @ '':'' @ stop @ '':'' @ departure @ '':'' @ date"

text \<open>
  \<open>get_prediction\<close>: everything raised inside the \<open>try\<close> is caught and the function
  returns \<open>None\<close>, as it does when the key is absent or the stored bytes are empty.
\<close>

definition get_prediction ::
  "(string \<Rightarrow> pyval option) \<Rightarrow> CacheManager \<Rightarrow> nat \<Rightarrow> string \<Rightarrow> string \<Rightarrow> string \<Rightarrow> string \<Rightarrow> pyval"
where
  "get_prediction json_loads c now trip stop departure date =
     (case redis_get (redis_client c) now (cache_key trip stop departure date) of
        Inl e \<Rightarrow> PyNone
      | Inr None \<Rightarrow> PyNone
      | Inr (Some cached_data) \<Rightarrow>
          if cached_data \<noteq> [] then
            (case json_loads cached_data of None \<Rightarrow> PyNone | Some v \<Rightarrow> v)
          else PyNone)"

text \<open>
  \<open>set_prediction\<close>: the arguments of \<open>setex\<close> are evaluated first, so a
  \<open>json.dumps\<close> that raises sends nothing to the store.
\<close>

definition set_prediction ::
  "(pyval \<Rightarrow> string option) \<Rightarrow> CacheManager \<Rightarrow> nat \<Rightarrow> string \<Rightarrow> string \<Rightarrow> string \<Rightarrow> string
     \<Rightarrow> pyval \<Rightarrow> bool \<times> CacheManager"
where
  "set_prediction json_dumps c now trip stop departure date prediction_data =
     (case json_dumps prediction_data of
        None \<Rightarrow> (False, c)
      | Some bytes \<Rightarrow>
          (case redis_setex (redis_client c) now (cache_key trip stop departure date) (ttl c) bytes of
             (Inl e, r') \<Rightarrow> (False, c\<lparr>redis_client := r'\<rparr>)
           | (Inr u, r') \<Rightarrow> (True, c\<lparr>redis_client := r'\<rparr>)))"

text \<open>\<open>if trip_id and stop_id\<close>: an argument counts when it is a non-empty string.\<close>

definition given :: "string option \<Rightarrow> bool" where
  "given a = (case a of None \<Rightarrow> False | Some s \<Rightarrow> s \<noteq> [])"

definition invalidate_pattern :: "string option \<Rightarrow> string option \<Rightarrow> string" where
  "invalidate_pattern trip stop =
     (if given trip \<and> given stop then ''prediction:'' @ the trip @ '':'' @ the stop @ '':*''
      else if given trip then ''prediction:'' @ the trip @ '':*''
      else if given stop then ''prediction:*:'' @ the stop @ '':*''
      else ''prediction:*'')"

definition invalidate_predictions ::
  "CacheManager \<Rightarrow> nat \<Rightarrow> string option \<Rightarrow> string option \<Rightarrow> CacheManager"
where
  "invalidate_predictions c now trip stop =
     (case redis_keys (redis_client c) now (invalidate_pattern trip stop) of
        Inl e \<Rightarrow> c
      | Inr keys \<Rightarrow>
          if keys \<noteq> [] then c\<lparr>redis_client := snd (redis_delete (redis_client c) keys)\<rparr>
          else c)"

section \<open>Data frames\<close>

text \<open>
  The part of pandas that \<open>app/ml_model.py\<close> uses. A frame has named columns and
  rows of cells; \<open>NaN\<close> is the missing value (\<open>None\<close>, \<open>NaN\<close> or \<open>NaT\<close>).
  Selecting a column that is absent raises \<open>KeyError\<close>, as pandas does.
\<close>

datatype cell = NaN | IntV int | NumV rat | StrV string | TimeV datetime

record DataFrame =
  columns :: "string list"
  rows :: "cell list list"

definition bind_result :: "'a result \<Rightarrow> ('a \<Rightarrow> 'b result) \<Rightarrow> 'b result" where
  "bind_result r f = (case r of Inl e \<Rightarrow> Inl e | Inr x \<Rightarrow> f x)"

fun sequence_result :: "('a result) list \<Rightarrow> ('a list) result" where
  "sequence_result [] = Inr []"
| "sequence_result (r # rs) =
     (case r of Inl e \<Rightarrow> Inl e
      | Inr x \<Rightarrow> (case sequence_result rs of Inl e \<Rightarrow> Inl e | Inr xs \<Rightarrow> Inr (x # xs)))"

text \<open>\<open>pd.DataFrame(list_of_dicts)\<close>: an empty list gives a frame without columns.\<close>

definition DataFrame_of :: "string list \<Rightarrow> cell list list \<Rightarrow> DataFrame" where
  "DataFrame_of cols rs =
     (if rs = [] then \<lparr>columns = [], rows = []\<rparr> else \<lparr>columns = cols, rows = rs\<rparr>)"

fun index_of :: "string \<Rightarrow> string list \<Rightarrow> nat option" where
  "index_of c [] = None"
| "index_of c (x # xs) = (if x = c then Some 0 else map_option Suc (index_of c xs))"

definition cell_at :: "cell list \<Rightarrow> nat \<Rightarrow> cell" where
  "cell_at r i = (if i < length r then r ! i else NaN)"

definition get_column :: "DataFrame \<Rightarrow> string \<Rightarrow> (cell list) result" where
  "get_column df c =
     (case index_of c (columns df) of
        None \<Rightarrow> Inl (KeyError c)
      | Some i \<Rightarrow> Inr (map (\<lambda>r. cell_at r i) (rows df)))"

text \<open>\<open>df[c] = values\<close>: replaces the column, or appends it when the name is new.\<close>

definition set_column :: "DataFrame \<Rightarrow> string \<Rightarrow> cell list \<Rightarrow> DataFrame" where
  "set_column df c vs =
     (case index_of c (columns df) of
        Some i \<Rightarrow> df\<lparr>rows := map (\<lambda>(r, v). r[i := v]) (zip (rows df) vs)\<rparr>
      | None \<Rightarrow> \<lparr>columns = columns df @ [c],
                  rows = map (\<lambda>(r, v). r @ [v]) (zip (rows df) vs)\<rparr>)"

text \<open>\<open>df[[c1, ..., cn]]\<close>: the columns in the order asked for.\<close>

definition select_columns :: "DataFrame \<Rightarrow> string list \<Rightarrow> DataFrame result" where
  "select_columns df cs =
     bind_result (sequence_result (map (\<lambda>c. case index_of c (columns df) of
                                             None \<Rightarrow> Inl (KeyError c) | Some i \<Rightarrow> Inr i) cs))
       (\<lambda>is. Inr \<lparr>columns = cs, rows = map (\<lambda>r. map (cell_at r) is) (rows df)\<rparr>)"


text \<open>
  \<open>left.merge(right, on=key, how='left')\<close>: every left row is kept, in order, once for
  each right row with the same key and once with missing values when there is none. The
  key must be a column of both frames. A name that both frames use for another column gets
  the suffixes \<open>_x\<close> and \<open>_y\<close>.
\<close>

definition merge_left :: "DataFrame \<Rightarrow> DataFrame \<Rightarrow> string \<Rightarrow> DataFrame result" where
  "merge_left left right key =
     (case (index_of key (columns left), index_of key (columns right)) of
        (Some i, Some j) \<Rightarrow>
          (let rcols = take j (columns right) @ drop (Suc j) (columns right);
               lcols' = map (\<lambda>c. if c \<noteq> key \<and> c \<in> set rcols then c @ ''_x'' else c)
                          (columns left);
               rcols' = map (\<lambda>c. if c \<in> set (columns left) then c @ ''_y'' else c) rcols;
               joined = (\<lambda>lr.
                  let ms = filter (\<lambda>rr. cell_at rr j = cell_at lr i) (rows right)
                  in if ms = [] then [lr @ replicate (length rcols) NaN]
                     else map (\<lambda>rr. lr @ take j rr @ drop (Suc j) rr) ms)
           in Inr \<lparr>columns = lcols' @ rcols', rows = concat (map joined (rows left))\<rparr>)
      | _ \<Rightarrow> Inl (KeyError key))"

definition fillna :: "cell \<Rightarrow> cell list \<Rightarrow> cell list" where
  "fillna v cs = map (\<lambda>x. if x = NaN then v else x) cs"

definition fillna_column :: "DataFrame \<Rightarrow> string \<Rightarrow> cell \<Rightarrow> DataFrame result" where
  "fillna_column df c v =
     bind_result (get_column df c) (\<lambda>col. Inr (set_column df c (fillna v col)))"

section \<open>Calendar\<close>

text \<open>
  \<open>datetime.weekday()\<close> and the \<open>dt.dayofweek\<close> of pandas both count Monday as 0 and
  Sunday as 6, in the proleptic Gregorian calendar; the computation is Python's
  (\<open>(toordinal() + 6) % 7\<close>).
\<close>

definition is_leap :: "nat \<Rightarrow> bool" where
  "is_leap y = (y mod 4 = 0 \<and> (y mod 100 \<noteq> 0 \<or> y mod 400 = 0))"

definition days_before_year :: "nat \<Rightarrow> nat" where
  "days_before_year y = (y - 1) * 365 + (y - 1) div 4 - (y - 1) div 100 + (y - 1) div 400"

definition days_before_month :: "nat \<Rightarrow> nat \<Rightarrow> nat" where
  "days_before_month y m =
     sum_list (take (m - 1) [31, 28, 31, 30, 31, 30, 31, 31, 30, 31, 30, 31])
       + (if 2 < m \<and> is_leap y then 1 else 0)"

definition toordinal :: "datetime \<Rightarrow> nat" where
  "toordinal dt = days_before_year (year dt) + days_before_month (year dt) (month dt) + day dt"

definition weekday :: "datetime \<Rightarrow> nat" where
  "weekday dt = (toordinal dt + 6) mod 7"

text \<open>
  \<open>pd.to_datetime\<close> on the observation times: timestamps and missing values pass. The
  model holds timestamps in that column (\<open>DateTime\<close> in \<open>app/models.py\<close>) and reports
  any other cell as an error.
\<close>

definition to_datetime :: "cell \<Rightarrow> cell result" where
  "to_datetime c =
     (case c of TimeV t \<Rightarrow> Inr (TimeV t) | NaN \<Rightarrow> Inr NaN
      | _ \<Rightarrow> Inl (TypeError ''observation_time is not a timestamp''))"

definition dt_field :: "(datetime \<Rightarrow> nat) \<Rightarrow> cell \<Rightarrow> cell" where
  "dt_field f c = (case c of TimeV t \<Rightarrow> IntV (int (f t)) | _ \<Rightarrow> NaN)"


definition isin_5_6 :: "cell \<Rightarrow> cell" where
  "isin_5_6 c = (case c of IntV d \<Rightarrow> IntV (if d \<in> set [5, 6] then 1 else 0) | _ \<Rightarrow> IntV 0)"

section \<open>Feature builder (\<open>app/ml_model.py\<close>, \<open>prepare_features\<close>)\<close>

text \<open>
  The global generator of \<open>np.random\<close>: a stream of uniform samples in \<open>[0, 1)\<close> and
  the position of the next one. \<open>np.random.choice([0, 1], size=n, p=[p0, p1])\<close> takes
  \<open>n\<close> samples and gives 0 for a sample below \<open>p0\<close> and 1 otherwise.
\<close>

record RandomState =
  samples :: "nat \<Rightarrow> rat"
  pos :: nat

definition random_choice :: "RandomState \<Rightarrow> nat \<Rightarrow> rat \<Rightarrow> cell list \<times> RandomState" where
  "random_choice g n p0 =
     (map (\<lambda>k. IntV (if samples g k < p0 then 0 else 1)) [pos g ..< pos g + n],
      g\<lparr>pos := pos g + n\<rparr>)"

definition get_amenities_features :: "RandomState \<Rightarrow> DataFrame \<Rightarrow> DataFrame result \<times> RandomState"
where
  "get_amenities_features g stops_df =
     (case select_columns stops_df [''stop_id''] of
        Inl e \<Rightarrow> (Inl e, g)
      | Inr amenities_df \<Rightarrow>
          (let n = length (rows amenities_df);
               (shelter, g1) = random_choice g n (7 / 10);
               (washroom, g2) = random_choice g1 n (8 / 10);
               (bike_rack, g3) = random_choice g2 n (6 / 10);
               (bench, g4) = random_choice g3 n (3 / 10)
           in (Inr (set_column (set_column (set_column (set_column amenities_df
                      ''has_shelter'' shelter) ''has_washroom'' washroom)
                      ''has_bike_rack'' bike_rack) ''has_bench'' bench),
               g4)))"

text \<open>Lines 31 to 42: the two joins and the time fields.\<close>

definition time_features :: "DataFrame \<Rightarrow> DataFrame result" where
  "time_features df0 =
     bind_result (get_column df0 ''observation_time'') (\<lambda>raw.
     bind_result (sequence_result (map to_datetime raw)) (\<lambda>times.
       let df1 = set_column df0 ''observation_time'' times;
           df2 = set_column df1 ''hour'' (map (dt_field hour) times);
           df3 = set_column df2 ''day_of_week'' (map (dt_field weekday) times);
           df4 = set_column df3 ''month'' (map (dt_field month) times)
       in bind_result (get_column df4 ''day_of_week'') (\<lambda>dow.
            let df5 = set_column df4 ''is_weekend'' (map isin_5_6 dow)
            in Inr (set_column df5 ''is_holiday'' (map (\<lambda>r. IntV 0) (rows df5))))))"

definition join_tables :: "DataFrame \<Rightarrow> DataFrame \<Rightarrow> DataFrame \<Rightarrow> DataFrame result" where
  "join_tables observations_df stops_df routes_df =
     bind_result (merge_left observations_df stops_df ''stop_id'') (\<lambda>df.
     bind_result (merge_left df routes_df ''route_id'') time_features)"

text \<open>Lines 46 to 54: the join with the amenity frame and the fills.\<close>

definition fill_missing :: "DataFrame \<Rightarrow> DataFrame \<Rightarrow> DataFrame result" where
  "fill_missing df amenities_df =
     bind_result (merge_left df amenities_df ''stop_id'') (\<lambda>d0.
     bind_result (fillna_column d0 ''has_shelter'' (IntV 0)) (\<lambda>d1.
     bind_result (fillna_column d1 ''has_washroom'' (IntV 0)) (\<lambda>d2.
     bind_result (fillna_column d2 ''has_bike_rack'' (IntV 0)) (\<lambda>d3.
     bind_result (fillna_column d3 ''has_bench'' (IntV 0)) (\<lambda>d4.
     bind_result (fillna_column d4 ''zone_id'' (StrV ''unknown'')) (\<lambda>d5.
     fillna_column d5 ''route_type'' (IntV 0)))))))"

definition prepare_features ::
  "RandomState \<Rightarrow> DataFrame \<Rightarrow> DataFrame \<Rightarrow> DataFrame \<Rightarrow> DataFrame result \<times> RandomState"
where
  "prepare_features g observations_df stops_df routes_df =
     (case join_tables observations_df stops_df routes_df of
        Inl e \<Rightarrow> (Inl e, g)
      | Inr df \<Rightarrow>
          (case get_amenities_features g stops_df of
             (Inl e, g') \<Rightarrow> (Inl e, g')
           | (Inr amenities_df, g') \<Rightarrow> (fill_missing df amenities_df, g')))"

section \<open>The libraries behind the model\<close>

text \<open>
  scikit-learn, \<open>json\<close>, \<open>strptime\<close> and the constructor of the response schema are
  not part of the repository; the predictor is modelled for any behaviour of theirs.
  A \<open>fit\<close> changes its object in place, so it takes the object and returns the
  exception it raised, if any, with the object as the call left it. The
  \<open>transform\<close> and \<open>predict\<close> functions read their object and work row by row.
  \<open>strptime\<close> is applied with the format \<open>%Y-%m-%d %H:%M:%S\<close> and raises
  \<open>ValueError\<close> where it yields \<open>None\<close>; \<open>json_loads\<close> and \<open>json_dumps\<close>
  raise where they yield \<open>None\<close>.
\<close>

record ('sc, 'm, 'rep) library =
  scaler_fit :: "'sc \<Rightarrow> cell list list \<Rightarrow> exn option \<times> 'sc"
  scaler_transform :: "'sc \<Rightarrow> cell list \<Rightarrow> (cell list) result"
  train_test_split ::
    "cell list list \<Rightarrow> cell list
       \<Rightarrow> (cell list list \<times> cell list list \<times> cell list \<times> cell list) result"
  model_fit :: "'m \<Rightarrow> cell list list \<Rightarrow> cell list \<Rightarrow> exn option \<times> 'm"
  model_predict :: "'m \<Rightarrow> cell list \<Rightarrow> cell result"
  model_predict_proba :: "'m \<Rightarrow> cell list \<Rightarrow> (rat list) result"
  classification_report :: "bool \<Rightarrow> cell list \<Rightarrow> cell list \<Rightarrow> 'rep result"
  strptime :: "string \<Rightarrow> datetime option"
  json_loads :: "string \<Rightarrow> pyval option"
  json_dumps :: "pyval \<Rightarrow> string option"
  response_of_dict :: "pyval \<Rightarrow> PredictionResponse result"

text \<open>
  \<open>LabelEncoder\<close>: fitting keeps the sorted distinct labels, and a label is encoded
  as its position among them. Zone identifiers are strings (\<open>app/models.py\<close>); a
  column with any other cell is reported as the type error that a mixed column gives.
  \<open>transform\<close> raises \<open>ValueError\<close> on a label that was not in the fitted data, and
  on an encoder that was never fitted.
\<close>

fun strings_of :: "cell list \<Rightarrow> (string list) option" where
  "strings_of [] = Some []"
| "strings_of (c # cs) =
     (case c of
        StrV s \<Rightarrow> (case strings_of cs of None \<Rightarrow> None | Some ss \<Rightarrow> Some (s # ss))
      | _ \<Rightarrow> None)"

definition encode :: "string list \<Rightarrow> string \<Rightarrow> cell" where
  "encode classes s = (case index_of s classes of None \<Rightarrow> NaN | Some i \<Rightarrow> IntV (int i))"

definition label_fit_transform :: "cell list \<Rightarrow> (string list \<times> cell list) result" where
  "label_fit_transform col =
     (case strings_of col of
        None \<Rightarrow> Inl (TypeError ''Encoders require their input argument must be uniformly strings or numbers.'')
      | Some ss \<Rightarrow> (let classes = sort (remdups ss) in Inr (classes, map (encode classes) ss)))"

definition label_transform :: "string list option \<Rightarrow> cell list \<Rightarrow> (cell list) result" where
  "label_transform enc col =
     (case enc of
        None \<Rightarrow> Inl (ValueError ''This LabelEncoder instance is not fitted yet.'')
      | Some classes \<Rightarrow>
          (case strings_of col of
             None \<Rightarrow> Inl (ValueError ''y contains previously unseen labels'')
           | Some ss \<Rightarrow>
               if \<forall>s \<in> set ss. s \<in> set classes then Inr (map (encode classes) ss)
               else Inl (ValueError ''y contains previously unseen labels'')))"

text \<open>\<open>accuracy_score\<close>: the share of predictions equal to the label.\<close>

definition accuracy_score :: "cell list \<Rightarrow> cell list \<Rightarrow> cell" where
  "accuracy_score y_true y_pred =
     (if y_true = [] then NaN
      else NumV (of_nat (length (filter (\<lambda>(a, b). a = b) (zip y_true y_pred)))
                  / of_nat (length y_true)))"

text \<open>\<open>X[cols] = matrix\<close>: column \<open>k\<close> of the matrix goes to the \<open>k\<close>-th name.\<close>

definition set_columns :: "DataFrame \<Rightarrow> string list \<Rightarrow> cell list list \<Rightarrow> DataFrame" where
  "set_columns df cs matrix =
     fold (\<lambda>(k, c) d. set_column d c (map (\<lambda>r. cell_at r k) matrix)) (enumerate 0 cs) df"

section \<open>Model lifecycle manager (\<open>app/ml_model.py\<close>, \<open>CrowdPredictor\<close>)\<close>

record ('sc, 'm) CrowdPredictor =
  model :: 'm
  label_encoder :: "string list option"
  scaler :: 'sc
  feature_columns :: "string list"
  is_trained :: bool

definition default_feature_columns :: "string list" where
  "default_feature_columns =
     [''hour'', ''day_of_week'', ''month'', ''is_weekend'', ''is_holiday'',
      ''stop_sequence'', ''has_shelter'', ''has_washroom'', ''has_bike_rack'',
      ''has_bench'', ''zone_id'', ''route_type'']"

text \<open>\<open>__init__\<close>, given the unfitted classifier and scaler it creates.\<close>

definition CrowdPredictor_init :: "'m \<Rightarrow> 'sc \<Rightarrow> ('sc, 'm) CrowdPredictor" where
  "CrowdPredictor_init new_model new_scaler =
     \<lparr>model = new_model, label_encoder = None, scaler = new_scaler,
      feature_columns = default_feature_columns, is_trained = False\<rparr>"

definition numerical_cols :: "string list" where
  "numerical_cols = [''hour'', ''day_of_week'', ''month'', ''stop_sequence'', ''route_type'']"

text \<open>
  \<open>train\<close>, in the order of the source. Lines 93 to 109: fit the classifier on the
  training part, evaluate on the test part, set the flag, build the result.
\<close>

definition train_fit ::
  "('sc, 'm, 'rep) library \<Rightarrow> ('sc, 'm) CrowdPredictor
     \<Rightarrow> (cell list list \<times> cell list list \<times> cell list \<times> cell list)
     \<Rightarrow> (cell \<times> 'rep) result \<times> ('sc, 'm) CrowdPredictor"
where
  "train_fit L p split =
     (case split of (X_train, X_test, y_train, y_test) \<Rightarrow>
        (case model_fit L (model p) X_train y_train of
           (Some e, m') \<Rightarrow> (Inl e, p\<lparr>model := m'\<rparr>)
         | (None, m') \<Rightarrow>
             (let p3 = p\<lparr>model := m'\<rparr> in
              case sequence_result (map (model_predict L m') X_test) of
                Inl e \<Rightarrow> (Inl e, p3)
              | Inr y_pred \<Rightarrow>
                  (let accuracy = accuracy_score y_test y_pred in
                   case classification_report L False y_test y_pred of
                     Inl e \<Rightarrow> (Inl e, p3)
                   | Inr logged \<Rightarrow>
                       (let p4 = p3\<lparr>is_trained := True\<rparr> in
                        case classification_report L True y_test y_pred of
                          Inl e \<Rightarrow> (Inl e, p4)
                        | Inr report \<Rightarrow> (Inr (accuracy, report), p4))))))"

text \<open>Lines 84 to 91: fit the scaler in place, scale the numeric columns, split.\<close>

definition train_scale ::
  "('sc, 'm, 'rep) library \<Rightarrow> ('sc, 'm) CrowdPredictor \<Rightarrow> DataFrame \<Rightarrow> cell list
     \<Rightarrow> (cell \<times> 'rep) result \<times> ('sc, 'm) CrowdPredictor"
where
  "train_scale L p X y =
     (case select_columns X numerical_cols of
        Inl e \<Rightarrow> (Inl e, p)
      | Inr numeric \<Rightarrow>
          (case scaler_fit L (scaler p) (rows numeric) of
             (Some e, sc') \<Rightarrow> (Inl e, p\<lparr>scaler := sc'\<rparr>)
           | (None, sc') \<Rightarrow>
               (let p2 = p\<lparr>scaler := sc'\<rparr> in
                case sequence_result (map (scaler_transform L sc') (rows numeric)) of
                  Inl e \<Rightarrow> (Inl e, p2)
                | Inr scaled \<Rightarrow>
                    (case train_test_split L (rows (set_columns X numerical_cols scaled)) y of
                       Inl e \<Rightarrow> (Inl e, p2)
                     | Inr split \<Rightarrow> train_fit L p2 split))))"

text \<open>Lines 73 to 82: the features, the target and the encoder, fitted in place.\<close>

definition train_encode ::
  "('sc, 'm, 'rep) library \<Rightarrow> ('sc, 'm) CrowdPredictor \<Rightarrow> DataFrame
     \<Rightarrow> (cell \<times> 'rep) result \<times> ('sc, 'm) CrowdPredictor"
where
  "train_encode L p df =
     (case select_columns df (feature_columns p) of
        Inl e \<Rightarrow> (Inl e, p)
      | Inr X \<Rightarrow>
          (case get_column df ''crowd_level'' of
             Inl e \<Rightarrow> (Inl e, p)
           | Inr y \<Rightarrow>
               (case bind_result (get_column X ''zone_id'') label_fit_transform of
                  Inl e \<Rightarrow> (Inl e, p)
                | Inr (classes, codes) \<Rightarrow>
                    train_scale L (p\<lparr>label_encoder := Some classes\<rparr>)
                      (set_column X ''zone_id'' codes) y)))"

definition train ::
  "('sc, 'm, 'rep) library \<Rightarrow> ('sc, 'm) CrowdPredictor \<Rightarrow> RandomState
     \<Rightarrow> DataFrame \<Rightarrow> DataFrame \<Rightarrow> DataFrame
     \<Rightarrow> (cell \<times> 'rep) result \<times> ('sc, 'm) CrowdPredictor \<times> RandomState"
where
  "train L p g observations_df stops_df routes_df =
     (case prepare_features g observations_df stops_df routes_df of
        (Inl e, g') \<Rightarrow> (Inl e, p, g')
      | (Inr df, g') \<Rightarrow> (case train_encode L p df of (r, p') \<Rightarrow> (r, p', g')))"

text \<open>
  \<open>predict\<close>. The feature row is built in the order of the dictionary of the source;
  \<open>stop.zone_id or 'unknown'\<close> takes the sentinel for a missing or empty zone.
\<close>

definition zone_or_unknown :: "string option \<Rightarrow> string" where
  "zone_or_unknown z = (case z of None \<Rightarrow> ''unknown'' | Some s \<Rightarrow> if s = [] then ''unknown'' else s)"

definition predict_features :: "datetime \<Rightarrow> Stop \<Rightarrow> Route option \<Rightarrow> (string \<times> cell) list" where
  "predict_features dt stop route =
     [(''hour'', IntV (int (hour dt))),
      (''day_of_week'', IntV (int (weekday dt))),
      (''month'', IntV (int (month dt))),
      (''is_weekend'', IntV (if weekday dt \<in> set [5, 6] then 1 else 0)),
      (''is_holiday'', IntV 0),
      (''stop_sequence'', IntV 1),
      (''has_shelter'', IntV 0),
      (''has_washroom'', IntV 0),
      (''has_bike_rack'', IntV 0),
      (''has_bench'', IntV 0),
      (''zone_id'', StrV (zone_or_unknown (stop_zone_id stop))),
      (''route_type'', IntV (case route of None \<Rightarrow> 0 | Some r \<Rightarrow> route_type r))]"

fun max_list :: "rat list \<Rightarrow> rat result" where
  "max_list [] = Inl (ValueError ''max() arg is an empty sequence'')"
| "max_list (x # xs) = Inr (fold max xs x)"

text \<open>
  Lines 150 to 155: the fitted encoder and the fitted scaler are applied to the frame;
  neither is fitted here.
\<close>

definition inference_features ::
  "('sc, 'm, 'rep) library \<Rightarrow> ('sc, 'm) CrowdPredictor \<Rightarrow> DataFrame \<Rightarrow> DataFrame result"
where
  "inference_features L p X =
     bind_result (get_column X ''zone_id'') (\<lambda>zone.
     bind_result (label_transform (label_encoder p) zone) (\<lambda>codes.
       let X1 = set_column X ''zone_id'' codes in
       bind_result (select_columns X1 numerical_cols) (\<lambda>numeric.
       bind_result (sequence_result (map (scaler_transform L (scaler p)) (rows numeric))) (\<lambda>scaled.
         Inr (set_columns X1 numerical_cols scaled)))))"

text \<open>Lines 157 to 162: the label and the largest class probability for the first row.\<close>

definition predict_row ::
  "('sc, 'm, 'rep) library \<Rightarrow> ('sc, 'm) CrowdPredictor \<Rightarrow> DataFrame
     \<Rightarrow> (cell \<times> rat \<times> string list) result"
where
  "predict_row L p X =
     bind_result (inference_features L p X) (\<lambda>X2.
       case rows X2 of
         [] \<Rightarrow> Inl (OtherError ''IndexError'')
       | row # _ \<Rightarrow>
           bind_result (model_predict L (model p) row) (\<lambda>prediction.
           bind_result (model_predict_proba L (model p) row) (\<lambda>probabilities.
           bind_result (max_list probabilities) (\<lambda>conf.
             Inr (prediction, conf, feature_columns p)))))"

definition predict ::
  "('sc, 'm, 'rep) library \<Rightarrow> ('sc, 'm) CrowdPredictor \<Rightarrow> database
     \<Rightarrow> string \<Rightarrow> string \<Rightarrow> string \<Rightarrow> string \<Rightarrow> (cell \<times> rat \<times> string list) result"
where
  "predict L p db trip stop departure_time date =
     (if \<not> is_trained p then
        Inl (ValueError ''Model must be trained before making predictions'')
      else
        (case strptime L (date @ '' '' @ departure_time) of
           None \<Rightarrow> Inl (ValueError ''time data does not match format'')
         | Some dt \<Rightarrow>
             (case (query_stop db stop, query_trip db trip) of
                (Some st, Some tr) \<Rightarrow>
                  (let features = predict_features dt st (query_route db (trip_route_id tr))
                   in predict_row L p \<lparr>columns = map fst features, rows = [map snd features]\<rparr>)
              | _ \<Rightarrow> Inl (ValueError ''Stop or trip not found''))))"

section \<open>The endpoints (\<open>app/api.py\<close>)\<close>

text \<open>
  The process-wide state the endpoints share: the database, the global predictor, the
  global cache manager, the generator of \<open>np.random\<close>, the model file on disk, and the
  clock the cache expiry is measured with. An endpoint takes the state and returns its
  response with the state it leaves. A response \<open>Inl (HTTPException code detail)\<close> is
  the error response with that status; any other exception that leaves an endpoint is
  answered by the framework with status 500.
\<close>

record ('sc, 'm) world =
  dbase :: database
  predictor :: "('sc, 'm) CrowdPredictor"
  cache :: CacheManager
  np_random :: RandomState
  model_file :: "('sc, 'm) CrowdPredictor option"
  disk_writable :: bool
  clock :: nat

definition status_code :: "'a result \<Rightarrow> nat" where
  "status_code r =
     (case r of Inr x \<Rightarrow> 200 | Inl (HTTPException code detail) \<Rightarrow> code | Inl e \<Rightarrow> 500)"

fun string_of_nat :: "nat \<Rightarrow> string" where
  "string_of_nat n =
     (if n < 10 then [''0123456789'' ! n]
      else string_of_nat (n div 10) @ [''0123456789'' ! (n mod 10)])"

text \<open>\<open>str(e)\<close>: the message; for \<open>HTTPException\<close> the status and the detail.\<close>

definition str_exn :: "exn \<Rightarrow> string" where
  "str_exn e =
     (case e of
        ValueError m \<Rightarrow> m
      | KeyError k \<Rightarrow> [CHR 0x27] @ k @ [CHR 0x27]
      | TypeError m \<Rightarrow> m
      | HTTPException code detail \<Rightarrow> string_of_nat code @ '': '' @ detail
      | OtherError m \<Rightarrow> m)"

text \<open>
  The constructor \<open>PredictionResponse(...)\<close> of lines 95 to 104 validates its fields:
  the predicted level has to be a string, and the validation error is a \<open>ValueError\<close>.
\<close>

definition make_response ::
  "PredictionRequest \<Rightarrow> cell \<Rightarrow> rat \<Rightarrow> int option \<Rightarrow> string list \<Rightarrow> PredictionResponse result"
where
  "make_response request predicted_level conf historical_avg feats =
     (case predicted_level of
        StrV lv \<Rightarrow>
          Inr \<lparr>resp_trip_id = req_trip_id request, resp_stop_id = req_stop_id request,
               resp_departure_time = req_departure_time request, resp_date = req_date request,
               predicted_crowd_level = lv, confidence = conf,
               historical_average = historical_avg, features_used = feats\<rparr>
      | _ \<Rightarrow> Inl (ValueError ''1 validation error for PredictionResponse''))"

text \<open>The two \<open>except\<close> clauses of \<open>predict_crowd\<close>, lines 114 to 118.\<close>

definition predict_handler :: "exn \<Rightarrow> exn" where
  "predict_handler e =
     (case e of
        ValueError m \<Rightarrow> HTTPException 400 m
      | _ \<Rightarrow> HTTPException 500 ''Prediction failed'')"

text \<open>The \<open>try\<close> block of \<open>predict_crowd\<close>, lines 86 to 118.\<close>

definition predict_crowd_try ::
  "('sc, 'm, 'rep) library \<Rightarrow> PredictionRequest \<Rightarrow> ('sc, 'm) world
     \<Rightarrow> PredictionResponse result \<times> ('sc, 'm) world"
where
  "predict_crowd_try L request w =
     (case predict L (predictor w) (dbase w) (req_trip_id request) (req_stop_id request)
             (req_departure_time request) (req_date request) of
        Inl e \<Rightarrow> (Inl (predict_handler e), w)
      | Inr (predicted_level, conf, feats) \<Rightarrow>
          (let historical_avg =
                 get_historical_average (req_trip_id request) (req_stop_id request) (dbase w)
           in case make_response request predicted_level conf historical_avg feats of
                Inl e \<Rightarrow> (Inl (predict_handler e), w)
              | Inr response \<Rightarrow>
                  (Inr response,
                   w\<lparr>cache := snd (set_prediction (json_dumps L) (cache w) (clock w)
                                     (req_trip_id request) (req_stop_id request)
                                     (req_departure_time request) (req_date request)
                                     (response_dict response))\<rparr>)))"

definition predict_crowd ::
  "('sc, 'm, 'rep) library \<Rightarrow> PredictionRequest \<Rightarrow> ('sc, 'm) world
     \<Rightarrow> PredictionResponse result \<times> ('sc, 'm) world"
where
  "predict_crowd L request w =
     (let cached_result =
            get_prediction (json_loads L) (cache w) (clock w) (req_trip_id request)
              (req_stop_id request) (req_departure_time request) (req_date request)
      in if truthy cached_result then (response_of_dict L cached_result, w)
         else
           (case query_trip (dbase w) (req_trip_id request) of
              None \<Rightarrow> (Inl (HTTPException 404 ''Trip not found''), w)
            | Some trip \<Rightarrow>
                (case query_stop (dbase w) (req_stop_id request) of
                   None \<Rightarrow> (Inl (HTTPException 404 ''Stop not found''), w)
                 | Some stop \<Rightarrow> predict_crowd_try L request w)))"

text \<open>
  \<open>create_observation\<close>. The row carries the identifier of the request body; the commit
  fails on an identifier that is already stored, and that exception is not caught.
\<close>

definition create_observation ::
  "Observation \<Rightarrow> ('sc, 'm) world \<Rightarrow> Observation result \<times> ('sc, 'm) world"
where
  "create_observation observation w =
     (case query_trip (dbase w) (obs_trip_id observation) of
        None \<Rightarrow> (Inl (HTTPException 404 ''Trip not found''), w)
      | Some trip \<Rightarrow>
          (case query_stop (dbase w) (obs_stop_id observation) of
             None \<Rightarrow> (Inl (HTTPException 404 ''Stop not found''), w)
           | Some stop \<Rightarrow>
               if obs_id observation \<in> set (map obs_id (observations (dbase w)))
               then (Inl (OtherError ''sqlalchemy.exc.IntegrityError''), w)
               else
                 (Inr observation,
                  w\<lparr>dbase := (dbase w)\<lparr>observations := observations (dbase w) @ [observation]\<rparr>,
                    cache := invalidate_predictions (cache w) (clock w)
                               (Some (obs_trip_id observation))
                               (Some (obs_stop_id observation))\<rparr>)))"

text \<open>The frames \<open>train_model\<close> builds from the tables, lines 198 to 234.\<close>

definition opt_str :: "string option \<Rightarrow> cell" where
  "opt_str a = (case a of None \<Rightarrow> NaN | Some s \<Rightarrow> StrV s)"

definition opt_num :: "rat option \<Rightarrow> cell" where
  "opt_num a = (case a of None \<Rightarrow> NaN | Some q \<Rightarrow> NumV q)"

definition observations_frame :: "Observation list \<Rightarrow> DataFrame" where
  "observations_frame obs =
     DataFrame_of
       [''trip_id'', ''stop_id'', ''observation_time'', ''boarding_count'',
        ''alighting_count'', ''crowd_level'', ''weather_condition'', ''temperature'']
       (map (\<lambda>ob. [StrV (obs_trip_id ob), StrV (obs_stop_id ob), TimeV (observation_time ob),
                    IntV (boarding_count ob), IntV (alighting_count ob),
                    opt_str (crowd_level ob), opt_str (weather_condition ob),
                    opt_num (temperature ob)]) obs)"

definition stops_frame :: "Stop list \<Rightarrow> DataFrame" where
  "stops_frame ss =
     DataFrame_of [''stop_id'', ''name'', ''latitude'', ''longitude'', ''zone_id'']
       (map (\<lambda>st. [StrV (stop_id st), StrV (stop_name st), NumV (stop_latitude st),
                    NumV (stop_longitude st), opt_str (stop_zone_id st)]) ss)"

definition routes_frame :: "Route list \<Rightarrow> DataFrame" where
  "routes_frame rs =
     DataFrame_of [''route_id'', ''long_name'', ''route_type'']
       (map (\<lambda>r. [StrV (route_id r), StrV (route_long_name r), IntV (route_type r)]) rs)"

record train_response =
  message :: string
  accuracy :: cell
  observations_used :: nat
  model_saved :: bool

text \<open>The \<open>except Exception\<close> clause of \<open>train_model\<close>, lines 251 to 253.\<close>

definition train_handler :: "exn \<Rightarrow> exn" where
  "train_handler e = HTTPException 500 (''Training failed: '' @ str_exn e)"

text \<open>
  \<open>train_model\<close>. Everything from the query to the \<open>return\<close> is inside the
  \<open>try\<close>, the \<open>raise HTTPException(status_code=400, ...)\<close> of line 195 included.
\<close>

definition train_model ::
  "('sc, 'm, 'rep) library \<Rightarrow> ('sc, 'm) world \<Rightarrow> train_response result \<times> ('sc, 'm) world"
where
  "train_model L w =
     (let obs = observations (dbase w) in
      if obs = [] then
        (Inl (train_handler (HTTPException 400 ''No observations found for training'')), w)
      else
        (case train L (predictor w) (np_random w) (observations_frame obs)
                (stops_frame (stops (dbase w))) (routes_frame (routes (dbase w))) of
           (Inl e, p', g') \<Rightarrow>
             (Inl (train_handler e), w\<lparr>predictor := p', np_random := g'\<rparr>)
         | (Inr (acc, report), p', g') \<Rightarrow>
             if disk_writable w then
               (Inr \<lparr>message = ''Model training completed'', accuracy = acc,
                     observations_used = length obs, model_saved = True\<rparr>,
                w\<lparr>predictor := p', np_random := g', model_file := Some p'\<rparr>)
             else
               (Inl (train_handler (OtherError ''OSError'')),
                w\<lparr>predictor := p', np_random := g'\<rparr>)))"

section \<open>A library instance and sample data\<close>

text \<open>
  To run the model on concrete inputs, one instance of the library. Its scaler remembers
  the rows it was fitted on and leaves values as they are; its classifier remembers the
  training part and answers with the first label it saw. Its split fails, as the stratified
  split of scikit-learn does, when a class has fewer than two members or the test part has
  fewer rows than there are classes, and otherwise puts the first fifth of the rows (rounded
  up) in the test part. Its \<open>strptime\<close> reads the zero-padded form
  \<open>YYYY-MM-DD HH:MM:SS\<close>. Its JSON functions know one payload.
\<close>

definition count_of :: "cell \<Rightarrow> cell list \<Rightarrow> nat" where
  "count_of c cs = length (filter (\<lambda>x. x = c) cs)"

definition demo_split ::
  "cell list list \<Rightarrow> cell list \<Rightarrow> (cell list list \<times> cell list list \<times> cell list \<times> cell list) result"
where
  "demo_split X y =
     (let n_test = (length y + 4) div 5 in
      if \<exists>c \<in> set y. count_of c y < 2 then
        Inl (ValueError ''The least populated class in y has only 1 member, which is too few.'')
      else if n_test < length (remdups y) then
        Inl (ValueError ''The test_size should be greater or equal to the number of classes'')
      else Inr (drop n_test X, take n_test X, drop n_test y, take n_test y))"

definition digit_of :: "char \<Rightarrow> nat option" where
  "digit_of c = map_option (\<lambda>i. i) (index_of [c] (map (\<lambda>d. [d]) ''0123456789''))"

definition number_of :: "string \<Rightarrow> nat option" where
  "number_of s =
     (if s = [] then None
      else fold (\<lambda>c acc. case (acc, digit_of c) of (Some a, Some d) \<Rightarrow> Some (10 * a + d)
                          | _ \<Rightarrow> None) s (Some 0))"

definition demo_strptime :: "string \<Rightarrow> datetime option" where
  "demo_strptime s =
     (if length s = 19 \<and> s ! 4 = CHR ''-'' \<and> s ! 7 = CHR ''-'' \<and> s ! 10 = CHR '' ''
         \<and> s ! 13 = CHR '':'' \<and> s ! 16 = CHR '':'' then
        (case (number_of (take 4 s), number_of (take 2 (drop 5 s)), number_of (take 2 (drop 8 s)),
               number_of (take 2 (drop 11 s)), number_of (take 2 (drop 14 s)),
               number_of (take 2 (drop 17 s))) of
           (Some y, Some mo, Some d, Some h, Some mi, Some se) \<Rightarrow>
             if 1 \<le> y \<and> 1 \<le> mo \<and> mo \<le> 12 \<and> 1 \<le> d
                \<and> d \<le> days_before_month y (mo + 1) - days_before_month y mo
                \<and> h \<le> 23 \<and> mi \<le> 59 \<and> se \<le> 59
             then Some \<lparr>year = y, month = mo, day = d, hour = h, minute = mi, second = se\<rparr>
             else None
         | _ \<Rightarrow> None)
      else None)"

definition demo_response :: PredictionResponse where
  "demo_response =
     \<lparr>resp_trip_id = ''t1'', resp_stop_id = ''s1'', resp_departure_time = ''08:00:00'',
      resp_date = ''2024-01-15'', predicted_crowd_level = ''light'', confidence = 1,
      historical_average = Some 20, features_used = default_feature_columns\<rparr>"

definition demo_bytes :: string where
  "demo_bytes = ''{cached prediction for t1, s1, 08:00:00, 2024-01-15}''"

definition demo_library ::
  "(cell list list, cell list list \<times> cell list, string) library"
where
  "demo_library =
     \<lparr>scaler_fit = (\<lambda>sc X. (None, X)),
      scaler_transform = (\<lambda>sc row. Inr row),
      train_test_split = demo_split,
      model_fit = (\<lambda>m X y. (None, (X, y))),
      model_predict = (\<lambda>m row. case snd m of [] \<Rightarrow> Inl (ValueError ''not fitted'')
                                 | lv # _ \<Rightarrow> Inr lv),
      model_predict_proba = (\<lambda>m row. Inr [1]),
      classification_report = (\<lambda>as_dict y_true y_pred. Inr ''report''),
      strptime = demo_strptime,
      json_loads = (\<lambda>s. if s = demo_bytes then Some (response_dict demo_response) else None),
      json_dumps = (\<lambda>v. if v = response_dict demo_response then Some demo_bytes else None),
      response_of_dict = (\<lambda>v. if v = response_dict demo_response then Inr demo_response
                               else Inl (ValueError ''validation error for PredictionResponse''))\<rparr>"

definition demo_db :: database where
  "demo_db =
     \<lparr>routes = [\<lparr>route_id = ''r1'', route_long_name = ''Lakeshore'', route_type = 2\<rparr>],
      trips = [\<lparr>trip_id = ''t1'', trip_route_id = ''r1''\<rparr>],
      stops = [\<lparr>stop_id = ''s1'', stop_name = ''Union'', stop_latitude = 43, stop_longitude = -79,
                stop_zone_id = Some ''A''\<rparr>,
               \<lparr>stop_id = ''s2'', stop_name = ''Exhibition'', stop_latitude = 43,
                stop_longitude = -79, stop_zone_id = Some ''B''\<rparr>],
      observations = [(observe ''t1'' ''s1'' 20 (Some ''light''))\<lparr>obs_id := 1\<rparr>]\<rparr>"

definition demo_request :: PredictionRequest where
  "demo_request =
     \<lparr>req_trip_id = ''t1'', req_stop_id = ''s1'', req_departure_time = ''08:00:00'',
      req_date = ''2024-01-15''\<rparr>"

definition rng0 :: RandomState where
  "rng0 = \<lparr>samples = (\<lambda>k. 0), pos = 0\<rparr>"

definition empty_cache :: CacheManager where
  "empty_cache = \<lparr>redis_client = \<lparr>reachable = True, entries = []\<rparr>, ttl = 3600\<rparr>"

definition untrained :: "(cell list list, cell list list \<times> cell list) CrowdPredictor" where
  "untrained = CrowdPredictor_init ([], []) []"

definition demo_world ::
  "(cell list list, cell list list \<times> cell list) CrowdPredictor \<Rightarrow> CacheManager
     \<Rightarrow> (cell list list, cell list list \<times> cell list) world"
where
  "demo_world p c =
     \<lparr>dbase = demo_db, predictor = p, cache = c, np_random = rng0, model_file = None,
      disk_writable = True, clock = 100\<rparr>"

text \<open>
  A predictor as a training run on stops of zone \<open>A\<close> leaves it, and caches holding
  one prediction: reachable, unreachable, and with bytes that are not JSON.
\<close>

definition trained_demo :: "(cell list list, cell list list \<times> cell list) CrowdPredictor" where
  "trained_demo =
     \<lparr>model = ([], [StrV ''light'']), label_encoder = Some [''A''], scaler = [],
      feature_columns = default_feature_columns, is_trained = True\<rparr>"

definition demo_key :: string where
  "demo_key = cache_key ''t1'' ''s1'' ''08:00:00'' ''2024-01-15''"

definition warm_cache :: CacheManager where
  "warm_cache =
     \<lparr>redis_client = \<lparr>reachable = True, entries = [(demo_key, demo_bytes, 3700)]\<rparr>, ttl = 3600\<rparr>"

definition down_cache :: CacheManager where
  "down_cache =
     \<lparr>redis_client = \<lparr>reachable = False, entries = [(demo_key, demo_bytes, 3700)]\<rparr>, ttl = 3600\<rparr>"

definition corrupt_cache :: CacheManager where
  "corrupt_cache =
     \<lparr>redis_client = \<lparr>reachable = True, entries = [(demo_key, ''{not json'', 3700)]\<rparr>, ttl = 3600\<rparr>"

text \<open>The cache as a miss sees it: reachable and without entries.\<close>

definition miss_cache :: "CacheManager \<Rightarrow> CacheManager" where
  "miss_cache c = c\<lparr>redis_client := \<lparr>reachable = True, entries = []\<rparr>\<rparr>"

text \<open>The characters the glob matcher gives a meaning to, and strings free of them.\<close>

definition glob_special :: "char \<Rightarrow> bool" where
  "glob_special c = (c = CHR ''*'' \<or> c = CHR ''?'' \<or> c = CHR ''['' \<or> c = CHR 0x5C)"

definition plain :: "string \<Rightarrow> bool" where
  "plain s = (\<forall>c \<in> set s. \<not> glob_special c)"

text \<open>A second observation for the sample trip and stop, and the store answering again.\<close>

definition second_observation :: Observation where
  "second_observation = (observe ''t1'' ''s1'' 5 (Some ''packed''))\<lparr>obs_id := 2\<rparr>"

definition reconnect :: "('sc, 'm) world \<Rightarrow> ('sc, 'm) world" where
  "reconnect w = w\<lparr>cache := (cache w)\<lparr>redis_client := (redis_client (cache w))\<lparr>reachable := True\<rparr>\<rparr>\<rparr>"

text \<open>
  Frames as \<open>train\<close> needs them, with the route and the stop sequence of each
  observation: six observations at stop \<open>s1\<close> (zone \<open>A\<close>), three of each level.
\<close>

definition training_row :: "int \<Rightarrow> string \<Rightarrow> string \<Rightarrow> cell list" where
  "training_row k stop lv = [StrV stop, StrV ''r1'', IntV k, TimeV sample_time, StrV lv]"

definition training_columns :: "string list" where
  "training_columns = [''stop_id'', ''route_id'', ''stop_sequence'', ''observation_time'', ''crowd_level'']"

definition demo_observations_df :: DataFrame where
  "demo_observations_df =
     \<lparr>columns = training_columns,
      rows = [training_row 1 ''s1'' ''light'', training_row 2 ''s1'' ''packed'',
              training_row 3 ''s1'' ''light'', training_row 4 ''s1'' ''packed'',
              training_row 5 ''s1'' ''light'', training_row 6 ''s1'' ''packed'']\<rparr>"

definition demo_stops_df :: DataFrame where
  "demo_stops_df = stops_frame (stops demo_db)"

definition demo_routes_df :: DataFrame where
  "demo_routes_df = routes_frame (routes demo_db)"

text \<open>The frames and the predictor that training on these sample frames produces.\<close>

definition joined_columns :: "string list" where
  "joined_columns = training_columns @ [''name'', ''latitude'', ''longitude'', ''zone_id'', ''long_name'', ''route_type'']"

definition joined_row :: "cell list \<Rightarrow> cell list" where
  "joined_row r = r @ [StrV ''Union'', NumV 43, NumV (- 79), StrV ''A'', StrV ''Lakeshore'', IntV 2]"

definition timed_row :: "cell list \<Rightarrow> cell list" where
  "timed_row r = joined_row r @ [IntV 8, IntV 0, IntV 1, IntV 0, IntV 0]"

definition prepared_row :: "cell list \<Rightarrow> cell list" where
  "prepared_row r = timed_row r @ [IntV 0, IntV 0, IntV 0, IntV 0]"

definition prepared_columns :: "string list" where
  "prepared_columns = joined_columns @ [''hour'', ''day_of_week'', ''month'', ''is_weekend'', ''is_holiday'',
      ''has_shelter'', ''has_washroom'', ''has_bike_rack'', ''has_bench'']"

definition feature_row :: "cell \<Rightarrow> int \<Rightarrow> cell list" where
  "feature_row z k = [IntV 8, IntV 0, IntV 1, IntV 0, IntV 0, IntV k, IntV 0, IntV 0, IntV 0,
                      IntV 0, z, IntV 2]"

definition numeric_row :: "int \<Rightarrow> cell list" where
  "numeric_row k = [IntV 8, IntV 0, IntV 1, IntV k, IntV 2]"

definition demo_labels :: "cell list" where
  "demo_labels = [StrV ''light'', StrV ''packed'', StrV ''light'', StrV ''packed'',
                  StrV ''light'', StrV ''packed'']"

definition prepared :: DataFrame where
  "prepared = \<lparr>columns = prepared_columns, rows = map prepared_row (rows demo_observations_df)\<rparr>"

definition retrained ::  "(cell list list, cell list list \<times> cell list) CrowdPredictor" where
  "retrained =
     \<lparr>model = (map (feature_row (IntV 0)) [3, 4, 5, 6], drop 2 demo_labels),
      label_encoder = Some [''A''], scaler = map numeric_row [1, 2, 3, 4, 5, 6],
      feature_columns = default_feature_columns, is_trained = True\<rparr>"

definition request_s2 :: PredictionRequest where
  "request_s2 =
     \<lparr>req_trip_id = ''t1'', req_stop_id = ''s2'', req_departure_time = ''08:00:00'',
      req_date = ''2024-01-15''\<rparr>"

definition demo_features :: DataFrame where
  "demo_features =
     \<lparr>columns = default_feature_columns, rows = map (feature_row (StrV ''A'')) [1, 2, 3, 4, 5, 6]\<rparr>"

definition cx_observations_df :: DataFrame where
  "cx_observations_df =
     \<lparr>columns = training_columns,
      rows = [training_row 1 ''s2'' ''light'', training_row 2 ''s2'' ''light'',
              training_row 3 ''s2'' ''packed'']\<rparr>"

definition cx_prepared_row :: "cell list \<Rightarrow> cell list" where
  "cx_prepared_row r =
     r @ [StrV ''Exhibition'', NumV 43, NumV (- 79), StrV ''B'', StrV ''Lakeshore'', IntV 2,
          IntV 8, IntV 0, IntV 1, IntV 0, IntV 0, IntV 0, IntV 0, IntV 0, IntV 0]"

definition cx_prepared :: DataFrame where
  "cx_prepared = \<lparr>columns = prepared_columns, rows = map cx_prepared_row (rows cx_observations_df)\<rparr>"

definition cx_features :: "cell \<Rightarrow> DataFrame" where
  "cx_features z = \<lparr>columns = default_feature_columns, rows = map (feature_row z) [1, 2, 3]\<rparr>"

definition cx_labels :: "cell list" where
  "cx_labels = [StrV ''light'', StrV ''light'', StrV ''packed'']"

definition split_error :: exn where
  "split_error = ValueError ''The least populated class in y has only 1 member, which is too few.''"

definition cx_predictor :: "(cell list list, cell list list \<times> cell list) CrowdPredictor" where
  "cx_predictor = fst (snd (train demo_library trained_demo rng0 cx_observations_df demo_stops_df demo_routes_df))"

definition rng_mixed :: RandomState where
  "rng_mixed = \<lparr>samples = (\<lambda>k. if k < 8 then 0 else 9 / 10), pos = 0\<rparr>"

definition amenities_with :: "int \<Rightarrow> DataFrame" where
  "amenities_with a =
     \<lparr>columns = [''stop_id'', ''has_shelter'', ''has_washroom'', ''has_bike_rack'', ''has_bench''],
      rows = [[StrV ''s1'', IntV a, IntV a, IntV a, IntV a],
              [StrV ''s2'', IntV a, IntV a, IntV a, IntV a]]\<rparr>"

definition cx_prepared_with :: "int \<Rightarrow> DataFrame" where
  "cx_prepared_with a =
     \<lparr>columns = prepared_columns,
      rows = map (\<lambda>r. take 16 (cx_prepared_row r) @ [IntV a, IntV a, IntV a, IntV a])
               (rows cx_observations_df)\<rparr>"

section \<open>Properties\<close>

lemma scaled_powi: "n \<noteq> 0 \<Longrightarrow> scaled_quotient a n t = of_int a / of_int n * 2 powi t"
  by (cases "0 \<le> t") (simp_all add: scaled_quotient_def power_int_def field_simps)

lemma bitlen_powi_bounds:
  assumes "0 < x"
  shows "(2::rat) powi (bitlen x - 1) \<le> of_int x" and "of_int x < (2::rat) powi bitlen x"
proof -
  have b: "1 \<le> bitlen x"
    using assms by (simp add: bitlen_alt_def)
  have "(2::int) ^ nat (bitlen x - 1) \<le> x" and "x < 2 ^ nat (bitlen x)"
    using bitlen_bounds [OF assms] by simp_all
  then have "(of_int ((2::int) ^ nat (bitlen x - 1)) :: rat) \<le> of_int x"
    and "(of_int x :: rat) < of_int (2 ^ nat (bitlen x))"
    by (simp_all only: of_int_le_iff of_int_less_iff)
  then show "(2::rat) powi (bitlen x - 1) \<le> of_int x" and "of_int x < (2::rat) powi bitlen x"
    using b by (simp_all add: power_int_def)
qed

lemma float_exponent_bounds:
  assumes "0 < a" "0 < n"
  shows "(2::rat) powi float_exponent a n \<le> of_int a / of_int n"
    and "of_int a / of_int n < (2::rat) powi (float_exponent a n + 1)"
proof -
  define q :: rat where "q = of_int a / of_int n"
  define d where "d = bitlen a - bitlen n"
  have n0: "(0::rat) < of_int n" using assms by simp
  have p: "(0::rat) < 2 powi k" for k by (simp add: zero_less_power_int)
  have up: "q < 2 powi (d + 1)"
  proof -
    have "q < 2 powi bitlen a / of_int n"
      unfolding q_def using bitlen_powi_bounds(2) [OF assms(1)] n0
      by (simp add: divide_strict_right_mono)
    also have "\<dots> \<le> 2 powi bitlen a / 2 powi (bitlen n - 1)"
      using bitlen_powi_bounds(1) [OF assms(2)] p [of "bitlen n - 1"] p [of "bitlen a"]
      by (simp add: frac_le)
    also have "\<dots> = 2 powi (d + 1)"
      by (simp add: d_def power_int_diff [symmetric] algebra_simps)
    finally show ?thesis .
  qed
  have lo: "2 powi (d - 1) < q"
  proof -
    have "2 powi (d - 1) = (2::rat) powi (bitlen a - 1) / 2 powi bitlen n"
      by (simp add: d_def power_int_diff [symmetric] algebra_simps)
    also have "\<dots> < 2 powi (bitlen a - 1) / of_int n"
      using bitlen_powi_bounds(2) [OF assms(2)] n0 p [of "bitlen a - 1"]
      by (simp add: divide_strict_left_mono)
    also have "\<dots> \<le> q"
      unfolding q_def using bitlen_powi_bounds(1) [OF assms(1)] n0
      by (simp add: divide_right_mono)
    finally show ?thesis .
  qed
  have s: "scaled_quotient a n (- d) = q * 2 powi (- d)"
    using assms by (simp add: scaled_powi q_def)
  show "(2::rat) powi float_exponent a n \<le> of_int a / of_int n"
  proof (cases "1 \<le> scaled_quotient a n (- d)")
    case True
    then have "1 \<le> q / 2 powi d"
      by (simp add: s power_int_minus field_simps)
    then have "2 powi d \<le> q"
      using p [of d] by (simp add: field_simps)
    then show ?thesis
      using True by (simp add: float_exponent_def d_def [symmetric] q_def)
  next
    case False
    then show ?thesis
      using lo by (simp add: float_exponent_def d_def [symmetric] q_def)
  qed
  show "of_int a / of_int n < (2::rat) powi (float_exponent a n + 1)"
  proof (cases "1 \<le> scaled_quotient a n (- d)")
    case True
    then show ?thesis
      using up by (simp add: float_exponent_def d_def [symmetric] q_def)
  next
    case False
    then have "q / 2 powi d < 1"
      by (simp add: s power_int_minus field_simps)
    then have "q < 2 powi d"
      using p [of d] by (simp add: field_simps)
    then show ?thesis
      using False by (simp add: float_exponent_def d_def [symmetric] q_def)
  qed
qed

lemma round_half_even_between:
  assumes "of_int j0 \<le> x" "x + 1 / 2 < of_int j1"
  shows "j0 \<le> round_half_even x" and "round_half_even x < j1"
proof -
  have f0: "j0 \<le> \<lfloor>x\<rfloor>"
    using assms(1) by (simp add: le_floor_iff)
  show "j0 \<le> round_half_even x"
    using f0 by (simp add: round_half_even_def Let_def)
  have "x < of_int j1" using assms(2) by simp
  then have lt: "\<lfloor>x\<rfloor> < j1" by (simp add: floor_less_iff)
  show "round_half_even x < j1"
  proof (cases "x - of_int \<lfloor>x\<rfloor> < 1 / 2")
    case True
    then show ?thesis using lt by (simp add: round_half_even_def Let_def)
  next
    case False
    then have "of_int \<lfloor>x\<rfloor> + 1 / 2 \<le> x" by simp
    then have "of_int \<lfloor>x\<rfloor> + 1 < (of_int j1 :: rat)" using assms(2) by simp
    then have "(of_int (\<lfloor>x\<rfloor> + 1) :: rat) < of_int j1" by simp
    then have "\<lfloor>x\<rfloor> + 1 < j1" by (simp only: of_int_less_iff)
    then show ?thesis using lt by (simp add: round_half_even_def Let_def)
  qed
qed

lemma quotient_cell:
  assumes "0 < n"
  shows "of_int (a div n) \<le> (of_int a / of_int n :: rat)"
    and "(of_int a / of_int n :: rat) + 1 / of_int n \<le> of_int (a div n) + 1"
proof -
  have n0: "(0::rat) < of_int n" using assms by simp
  have e: "a div n * n + a mod n = a" by simp
  have r: "0 \<le> a mod n" "a mod n < n" using assms by simp_all
  have "a div n * n \<le> a"
    using e r by linarith
  then have "(of_int (a div n * n) :: rat) \<le> of_int a"
    by (simp only: of_int_le_iff)
  then show "of_int (a div n) \<le> (of_int a / of_int n :: rat)"
    using n0 by (simp add: field_simps)
  have "(a div n + 1) * n = a div n * n + n"
    by (simp add: algebra_simps)
  then have "a + 1 \<le> (a div n + 1) * n"
    using e r by linarith
  then have "(of_int (a + 1) :: rat) \<le> of_int ((a div n + 1) * n)"
    by (simp only: of_int_le_iff)
  then show "(of_int a / of_int n :: rat) + 1 / of_int n \<le> of_int (a div n) + 1"
    using n0 by (simp add: field_simps)
qed

lemma float_quotient_cell:
  assumes "0 < a" "a < 2 ^ 53" "0 < n"
  defines "t \<equiv> min (52 - float_exponent a n) 1074"
  shows "0 \<le> t"
    and "(a div n) * 2 ^ nat t \<le> round_half_even (scaled_quotient a n t)"
    and "round_half_even (scaled_quotient a n t) < (a div n + 1) * 2 ^ nat t"
proof -
  define q :: rat where "q = of_int a / of_int n"
  define e where "e = float_exponent a n"
  define k where "k = a div n"
  have n0: "(0::rat) < of_int n" using assms by simp
  have p: "(0::rat) < 2 powi i" for i by (simp add: zero_less_power_int)
  have lo: "2 powi e \<le> q" and up: "q < 2 powi (e + 1)"
    unfolding q_def e_def using float_exponent_bounds [OF assms(1,3)] by simp_all
  define B :: rat where "B = 2 powi 53"
  have a53: "(of_int a :: rat) < B"
  proof -
    have "(of_int a :: rat) < of_int (2 ^ 53)"
      using assms(2) by (simp only: of_int_less_iff)
    then show ?thesis by (simp add: B_def)
  qed
  have na: "of_int n * 2 powi e \<le> (of_int a :: rat)"
    using lo n0 by (simp add: q_def field_simps)
  have "(1::rat) * 2 powi e \<le> of_int n * 2 powi e"
    using assms(3) p [of e] by (intro mult_right_mono) simp_all
  then have eB: "(2::rat) powi e < B"
    using na a53 by linarith
  have e52: "e \<le> 52"
  proof (rule ccontr)
    assume "\<not> e \<le> 52"
    then have "53 \<le> e" by simp
    then have "(2::rat) powi 53 \<le> 2 powi e"
      by (intro power_int_increasing) simp_all
    then show False
      using eB unfolding B_def by linarith
  qed
  then show t0: "0 \<le> t" by (simp add: t_def e_def)
  have x: "scaled_quotient a n t = q * 2 ^ nat t"
    using t0 assms(3) by (simp add: scaled_powi q_def power_int_def)
  have kq: "of_int k \<le> q" and qk: "q + 1 / of_int n \<le> of_int k + 1"
    unfolding k_def q_def using quotient_cell [OF assms(3)] by simp_all
  have j0: "of_int (k * 2 ^ nat t) \<le> scaled_quotient a n t"
    using kq by (simp add: x)
  have j1: "scaled_quotient a n t + 1 / 2 < of_int ((k + 1) * 2 ^ nat t)"
  proof (cases "52 - e \<le> 1074")
    case True
    then have te: "t = 52 - e" by (simp add: t_def e_def)
    have "of_int n * 2 powi e < B"
      using na a53 by linarith
    then have "of_int n < B / 2 powi e"
      using p [of e] by (simp add: field_simps)
    also have "\<dots> = 2 powi (53 - e)"
      unfolding B_def by (rule power_int_diff [symmetric]) simp
    also have "\<dots> = 2 powi (t + 1)"
      by (simp add: te)
    also have "\<dots> = 2 * 2 ^ nat t"
      using t0 by (simp add: power_int_def nat_add_distrib)
    finally have "1 / 2 < 2 ^ nat t / (of_int n :: rat)"
      using n0 by (simp add: field_simps)
    moreover have "(q + 1 / of_int n) * 2 ^ nat t \<le> (of_int k + 1) * 2 ^ nat t"
      using qk by (intro mult_right_mono) simp_all
    ultimately show ?thesis
      by (simp add: x algebra_simps)
  next
    case False
    then have te: "t = 1074" and e1: "e + 1 \<le> - 1022" by (simp_all add: t_def e_def)
    define Q :: rat where "Q = 2 powi 52"
    have pt: "(of_int ((k + 1) * 2 ^ nat t) :: rat) = (of_int k + 1) * 2 powi t"
      using t0 by (simp add: power_int_def)
    have xt: "scaled_quotient a n t = q * 2 powi t"
      using assms(3) by (simp add: scaled_powi q_def)
    have "(2::rat) powi (e + 1) \<le> 2 powi (- 1022)"
      using e1 by (intro power_int_increasing) simp_all
    then have "q < 2 powi (- 1022)" using up by linarith
    then have "q * 2 powi t < 2 powi (- 1022) * 2 powi t"
      using p [of t] by (intro mult_strict_right_mono)
    also have "2 powi (- 1022) * 2 powi t = (2::rat) powi (- 1022 + t)"
      by (rule power_int_add [symmetric]) simp
    also have "\<dots> = Q"
    proof -
      have "- 1022 + t = 52" by (simp add: te)
      then show ?thesis by (simp only: Q_def)
    qed
    finally have xq: "q * 2 powi t < Q" .
    have q53: "Q + 1 / 2 < 2 powi 53"
      by (simp add: Q_def)
    have "(53::int) \<le> t" by (simp add: te)
    then have t53: "(2::rat) powi 53 \<le> 2 powi t"
      by (intro power_int_increasing) simp_all
    have "0 \<le> k" using assms by (simp add: k_def pos_imp_zdiv_nonneg_iff)
    then have "(1::rat) * 2 powi t \<le> (of_int k + 1) * 2 powi t"
      using p [of t] by (intro mult_right_mono) simp_all
    then show ?thesis
      unfolding pt xt using xq q53 t53 by linarith
  qed
  show "(a div n) * 2 ^ nat t \<le> round_half_even (scaled_quotient a n t)"
    and "round_half_even (scaled_quotient a n t) < (a div n + 1) * 2 ^ nat t"
    using round_half_even_between [OF j0 j1] by (simp_all add: k_def)
qed

lemma true_divide_exact:
  assumes "0 < n" "\<bar>s\<bar> < 2 ^ 53"
  shows "\<exists>v. true_divide s n = Some v \<and> int_of_float v = sgn s * (\<bar>s\<bar> div n)"
proof (cases "s = 0")
  case True
  then show ?thesis by (simp add: true_divide_def int_of_float_def)
next
  case False
  define a where "a = \<bar>s\<bar>"
  define t where "t = min (52 - float_exponent a n) 1074"
  define m where "m = round_half_even (scaled_quotient a n t)"
  define k where "k = a div n"
  define v :: rat where "v = scaled_quotient m 1 (- t)"
  have a0: "0 < a" "a < 2 ^ 53" using False assms(2) by (simp_all add: a_def)
  have t0: "0 \<le> t" and m0: "k * 2 ^ nat t \<le> m" and m1: "m < (k + 1) * 2 ^ nat t"
    using float_quotient_cell [OF a0 assms(1)] by (simp_all add: t_def m_def k_def)
  have k0: "0 \<le> k" using a0 assms(1) by (simp add: k_def pos_imp_zdiv_nonneg_iff)
  have ka: "k \<le> a"
  proof -
    have "a div n * n + a mod n = a" by simp
    moreover have "0 \<le> a mod n" using assms(1) by simp
    ultimately have "k * n \<le> a" unfolding k_def by linarith
    moreover have "k * 1 \<le> k * n" using k0 assms(1) by (intro mult_left_mono) simp_all
    ultimately show ?thesis by simp
  qed
  have vm: "v = of_int m / 2 ^ nat t"
    using t0 by (simp add: v_def scaled_quotient_def)
  have p: "(0::rat) < 2 ^ nat t" by simp
  have "(of_int (k * 2 ^ nat t) :: rat) \<le> of_int m" and "(of_int m :: rat) < of_int ((k + 1) * 2 ^ nat t)"
    using m0 m1 by (simp_all only: of_int_le_iff of_int_less_iff)
  then have lo: "of_int k \<le> v" and up: "v < of_int k + 1"
    using p by (simp_all add: vm field_simps)
  have fl: "\<lfloor>v\<rfloor> = k"
    using lo up by (simp add: floor_unique)
  have v0: "0 \<le> v" using lo k0 by simp
  have "v < of_int a + 1" using up ka by (simp add: less_le_trans)
  moreover have "(of_int a :: rat) + 1 \<le> 2 ^ 53"
  proof -
    have "a + 1 \<le> 2 ^ 53" using a0 by simp
    then have "(of_int (a + 1) :: rat) \<le> of_int (2 ^ 53)" by (simp only: of_int_le_iff)
    then show ?thesis by simp
  qed
  moreover have "(2::rat) ^ 53 \<le> 2 ^ 1024"
    by (intro power_increasing) simp_all
  ultimately have no: "\<not> 2 ^ 1024 \<le> v" by linarith
  have td: "true_divide s n = Some (of_int (sgn s) * v)"
    using False no
    by (simp add: true_divide_def Let_def a_def [symmetric] t_def [symmetric] m_def [symmetric]
          v_def [symmetric] del: power_numeral)
  have "int_of_float (of_int (sgn s) * v) = sgn s * k"
  proof (cases "0 < s")
    case True
    then show ?thesis using v0 fl by (simp add: int_of_float_def)
  next
    case neg: False
    then have s: "s < 0" using False by simp
    show ?thesis
    proof (cases "v = 0")
      case True
      then show ?thesis using fl s by (simp add: int_of_float_def)
    next
      case nz: False
      then have "- v < 0" using v0 by simp
      then show ?thesis using fl s by (simp add: int_of_float_def ceiling_def)
    qed
  qed
  then show ?thesis
    using td by (simp add: k_def a_def)
qed

lemma truncated_quotient:
  assumes "0 < n"
  shows "sgn s * (\<bar>s\<bar> div n) = truncate_real (real_of_int s / real_of_int n)"
proof (cases "0 \<le> s")
  case True
  then have "0 \<le> real_of_int s / real_of_int n"
    using assms by simp
  moreover have "\<lfloor>real_of_int s / real_of_int n\<rfloor> = s div n"
    by (rule floor_divide_of_int_eq)
  moreover have "sgn s * (\<bar>s\<bar> div n) = s div n"
    using True assms by (cases "s = 0") (simp_all add: sgn_if)
  ultimately show ?thesis
    by (simp add: truncate_real_def)
next
  case False
  then have neg: "s < 0" by simp
  then have "real_of_int s / real_of_int n < 0"
    using assms by (simp add: divide_neg_pos)
  then have "truncate_real (real_of_int s / real_of_int n) = \<lceil>real_of_int s / real_of_int n\<rceil>"
    by (simp add: truncate_real_def)
  also have "\<dots> = - \<lfloor>real_of_int (- s) / real_of_int n\<rfloor>"
    by (simp add: ceiling_def)
  also have "\<dots> = - ((- s) div n)"
    by (simp only: floor_divide_of_int_eq)
  also have "\<dots> = sgn s * (\<bar>s\<bar> div n)"
    using neg by (simp add: sgn_if)
  finally show ?thesis by simp
qed

lemma get_historical_average_small:
  assumes "matching_counts trip stop db = xs" "xs \<noteq> []" "\<bar>sum_list xs\<bar> < 2 ^ 53"
  shows "get_historical_average trip stop db
           = Some (sgn (sum_list xs) * (\<bar>sum_list xs\<bar> div int (length xs)))"
proof -
  have "0 < int (length xs)" using assms(2) by simp
  from true_divide_exact [OF this assms(3)] obtain v where
    "true_divide (sum_list xs) (int (length xs)) = Some v"
    "int_of_float v = sgn (sum_list xs) * (\<bar>sum_list xs\<bar> div int (length xs))"
    by blast
  then show ?thesis
    using assms(1,2) by (simp add: get_historical_average_def)
qed

lemma true_divide_large: "true_divide 9007199254740993 1 = Some 9007199254740992"
  by code_simp

text \<open>
  C7, as amended. With at least one observation for the trip and stop, and the sum of their
  boarding counts below \<open>2 ^ 53\<close> in absolute value, the historical average is the
  arithmetic mean of the boarding counts, truncated to an integer; with no observation it
  is the "no data" value \<open>None\<close>, which is not \<open>Some 0\<close>.
\<close>

theorem historical_average_of_small_sums:
  "(matching_counts trip stop db \<noteq> [] \<and> \<bar>sum_list (matching_counts trip stop db)\<bar> < 2 ^ 53 \<longrightarrow>
      get_historical_average trip stop db
        = Some (truncate_real (mean (matching_counts trip stop db))))
   \<and> (matching_counts trip stop db = [] \<longrightarrow>
      get_historical_average trip stop db = None
      \<and> get_historical_average trip stop db \<noteq> Some 0)"
proof -
  have "get_historical_average trip stop db
          = Some (truncate_real (mean (matching_counts trip stop db)))"
    if "matching_counts trip stop db \<noteq> []" "\<bar>sum_list (matching_counts trip stop db)\<bar> < 2 ^ 53"
  proof -
    have "0 < int (length (matching_counts trip stop db))"
      using that(1) by simp
    then have "sgn (sum_list (matching_counts trip stop db))
                 * (\<bar>sum_list (matching_counts trip stop db)\<bar>
                      div int (length (matching_counts trip stop db)))
               = truncate_real (mean (matching_counts trip stop db))"
      by (simp add: truncated_quotient mean_def)
    then show ?thesis
      using get_historical_average_small [OF refl that] by simp
  qed
  moreover have "get_historical_average trip stop db = None"
    if "matching_counts trip stop db = []"
    using that by (simp add: get_historical_average_def)
  ultimately show ?thesis by simp
qed

theorem historical_average_of_small_sums_witness:
  "matching_counts ''t'' ''s'' db_10_20_30 = [10, 20, 30]
   \<and> \<bar>sum_list [10, 20, 30 :: int]\<bar> < 2 ^ 53
   \<and> get_historical_average ''t'' ''s'' db_10_20_30 = Some 20
   \<and> truncate_real (mean [10, 20, 30]) = 20
   \<and> matching_counts ''t'' ''x'' db_10_20_30 = []
   \<and> get_historical_average ''t'' ''x'' db_10_20_30 = None"
proof -
  have m: "matching_counts ''t'' ''s'' db_10_20_30 = [10, 20, 30]"
    by (simp add: matching_counts_def db_10_20_30_def observe_def)
  have e: "matching_counts ''t'' ''x'' db_10_20_30 = []"
    by (simp add: matching_counts_def db_10_20_30_def observe_def)
  have t: "truncate_real (mean [10, 20, 30]) = 20"
    by (simp add: mean_def truncate_real_def)
  show ?thesis
    using historical_average_of_small_sums [of "''t''" "''s''" db_10_20_30]
      historical_average_of_small_sums [of "''t''" "''x''" db_10_20_30]
    by (simp add: m e t)
qed

text \<open>
  C7 as stated fails for large sums: the mean is rounded to a double before it is
  truncated. For a single observation with the boarding count \<open>2 ^ 53 + 1\<close> the code
  returns \<open>2 ^ 53\<close>, and the truncated mean is \<open>2 ^ 53 + 1\<close>.
\<close>

theorem historical_average_rounds_large_sums:
  "matching_counts ''t'' ''s'' db_large = [9007199254740993]
   \<and> get_historical_average ''t'' ''s'' db_large = Some 9007199254740992
   \<and> truncate_real (mean (matching_counts ''t'' ''s'' db_large)) = 9007199254740993"
proof -
  have m: "matching_counts ''t'' ''s'' db_large = [9007199254740993]"
    by (simp add: matching_counts_def db_large_def observe_def)
  have g: "get_historical_average ''t'' ''s'' db_large = Some 9007199254740992"
    by (simp add: get_historical_average_def m true_divide_large int_of_float_def)
  have t: "truncate_real (mean [9007199254740993]) = 9007199254740993"
    by (simp add: mean_def truncate_real_def)
  show ?thesis
    by (simp add: m g t)
qed

text \<open>
  C2. The claim: training with zero observations is answered with status 400. In the code
  the \<open>HTTPException\<close> with status 400 is raised inside the \<open>try\<close> block, whose
  \<open>except Exception\<close> clause catches it and raises status 500 in its place. So for
  every state with an empty observation table the answer of \<open>train_model\<close> has status
  500 and not 400.
\<close>

theorem train_model_zero_observations_status_500:
  "fst (train_model L (w\<lparr>dbase := (dbase w)\<lparr>observations := []\<rparr>\<rparr>))
     = Inl (HTTPException 500 ''Training failed: 400: No observations found for training'')
   \<and> status_code (fst (train_model L (w\<lparr>dbase := (dbase w)\<lparr>observations := []\<rparr>\<rparr>))) = 500
   \<and> status_code (fst (train_model L (w\<lparr>dbase := (dbase w)\<lparr>observations := []\<rparr>\<rparr>))) \<noteq> 400"
  by (simp add: train_model_def train_handler_def str_exn_def status_code_def)

lemma predict_untrained:
  "\<not> is_trained p \<Longrightarrow>
     predict L p d trip stop departure_time date
       = Inl (ValueError ''Model must be trained before making predictions'')"
  by (simp add: predict_def)

text \<open>
  C5. While the model is untrained, every call of \<open>predict\<close> raises the
  \<open>ValueError\<close> "Model must be trained before making predictions", and the \<open>try\<close>
  block of \<open>predict_crowd\<close> around that call answers with status 400 and that message,
  never with 500. For the endpoint as a whole: on a cache miss the answer is 400 when trip
  and stop exist, and 404 otherwise.
\<close>

theorem predict_untrained_is_precondition_failure:
  assumes "\<not> is_trained (predictor w)"
  shows "predict L (predictor w) (dbase w) trip stop departure_time date
           = Inl (ValueError ''Model must be trained before making predictions'')
         \<and> predict_crowd_try L request w
           = (Inl (HTTPException 400 ''Model must be trained before making predictions''), w)
         \<and> status_code (fst (predict_crowd_try L request w)) = 400
         \<and> (\<not> truthy (get_prediction (json_loads L) (cache w) (clock w) (req_trip_id request)
                        (req_stop_id request) (req_departure_time request) (req_date request))
              \<longrightarrow> status_code (fst (predict_crowd L request w)) \<in> {400, 404}
                \<and> (query_trip (dbase w) (req_trip_id request) \<noteq> None
                     \<and> query_stop (dbase w) (req_stop_id request) \<noteq> None
                   \<longrightarrow> status_code (fst (predict_crowd L request w)) = 400))"
proof -
  have p: "predict L (predictor w) (dbase w) t s dt d
             = Inl (ValueError ''Model must be trained before making predictions'')" for t s dt d
    using assms by (rule predict_untrained)
  have t: "predict_crowd_try L request w
             = (Inl (HTTPException 400 ''Model must be trained before making predictions''), w)"
    by (simp add: predict_crowd_try_def p predict_handler_def)
  have c: "status_code (fst (predict_crowd L request w)) \<in> {400, 404}
           \<and> (query_trip (dbase w) (req_trip_id request) \<noteq> None
                \<and> query_stop (dbase w) (req_stop_id request) \<noteq> None
              \<longrightarrow> status_code (fst (predict_crowd L request w)) = 400)"
    if "\<not> truthy (get_prediction (json_loads L) (cache w) (clock w) (req_trip_id request)
                        (req_stop_id request) (req_departure_time request) (req_date request))"
    using that by (auto simp add: predict_crowd_def Let_def t status_code_def split: option.splits)
  show ?thesis
    using p t c by (simp add: status_code_def)
qed

theorem predict_untrained_is_precondition_failure_witness:
  "\<not> is_trained (predictor (demo_world untrained empty_cache))
   \<and> \<not> truthy (get_prediction (json_loads demo_library) (cache (demo_world untrained empty_cache))
          (clock (demo_world untrained empty_cache)) (req_trip_id demo_request)
          (req_stop_id demo_request) (req_departure_time demo_request) (req_date demo_request))
   \<and> query_trip (dbase (demo_world untrained empty_cache)) (req_trip_id demo_request) \<noteq> None
   \<and> query_stop (dbase (demo_world untrained empty_cache)) (req_stop_id demo_request) \<noteq> None
   \<and> fst (predict_crowd demo_library demo_request (demo_world untrained empty_cache))
       = Inl (HTTPException 400 ''Model must be trained before making predictions'')"
proof -
  have u: "\<not> is_trained (predictor (demo_world untrained empty_cache))"
    by (simp add: demo_world_def untrained_def CrowdPredictor_init_def)
  have m: "\<not> truthy (get_prediction (json_loads demo_library) (cache (demo_world untrained empty_cache))
          (clock (demo_world untrained empty_cache)) (req_trip_id demo_request)
          (req_stop_id demo_request) (req_departure_time demo_request) (req_date demo_request))"
    by (simp add: demo_world_def empty_cache_def get_prediction_def redis_get_def)
  have q: "query_trip (dbase (demo_world untrained empty_cache)) (req_trip_id demo_request) \<noteq> None"
    "query_stop (dbase (demo_world untrained empty_cache)) (req_stop_id demo_request) \<noteq> None"
    by (simp_all add: demo_world_def demo_db_def demo_request_def query_trip_def query_stop_def)
  have e: "fst (predict_crowd demo_library demo_request (demo_world untrained empty_cache))
       = Inl (HTTPException 400 ''Model must be trained before making predictions'')"
    using predict_untrained_is_precondition_failure
            [OF u, where L = demo_library and request = demo_request] m q
    by (auto simp add: predict_crowd_def Let_def split: option.splits)
  show ?thesis using u m q e by simp
qed

lemma get_prediction_unreachable:
  "\<not> reachable (redis_client c) \<Longrightarrow> get_prediction loads c now t s dt d = PyNone"
  by (simp add: get_prediction_def redis_get_def)

lemma get_prediction_miss:
  "get_prediction loads (miss_cache c) now t s dt d = PyNone"
  by (simp add: get_prediction_def redis_get_def miss_cache_def)

lemma get_prediction_undecodable:
  "redis_get (redis_client c) now (cache_key t s dt d) = Inr (Some bytes) \<Longrightarrow> loads bytes = None
     \<Longrightarrow> get_prediction loads c now t s dt d = PyNone"
  by (simp add: get_prediction_def)

lemma set_prediction_fails:
  "\<not> reachable (redis_client c) \<or> dumps v = None
     \<Longrightarrow> set_prediction dumps c now t s dt d v = (False, c)"
  by (auto simp add: set_prediction_def redis_setex_def split: option.splits)

lemma predict_crowd_try_response:
  "fst (predict_crowd_try L request (w\<lparr>cache := c\<rparr>)) = fst (predict_crowd_try L request w)"
  by (simp add: predict_crowd_try_def Let_def split: sum.splits prod.splits)

text \<open>
  C8. No error of a cache read or write reaches the caller. A read that fails, because the
  store is unreachable or because the stored bytes do not decode, returns what a miss
  returns; a write that fails, because the store is unreachable or the value does not
  serialise, returns \<open>False\<close> and leaves the cache as it was. With the store
  unreachable, \<open>predict_crowd\<close> gives the response it gives on a miss and changes
  nothing.
\<close>

theorem cache_errors_degrade_to_miss:
  "(\<not> reachable (redis_client c) \<longrightarrow>
       get_prediction loads c now t s dt d = get_prediction loads (miss_cache c) now t s dt d)
   \<and> (redis_get (redis_client c) now (cache_key t s dt d) = Inr (Some bytes) \<and> loads bytes = None
        \<longrightarrow> get_prediction loads c now t s dt d = get_prediction loads (miss_cache c) now t s dt d)
   \<and> get_prediction loads (miss_cache c) now t s dt d = PyNone
   \<and> (\<not> reachable (redis_client c) \<or> dumps v = None
        \<longrightarrow> set_prediction dumps c now t s dt d v = (False, c))
   \<and> (\<not> reachable (redis_client (cache w)) \<longrightarrow>
        fst (predict_crowd L request w)
          = fst (predict_crowd L request (w\<lparr>cache := miss_cache (cache w)\<rparr>))
        \<and> snd (predict_crowd L request w) = w)"
proof -
  have a: "fst (predict_crowd L request w)
             = fst (predict_crowd L request (w\<lparr>cache := miss_cache (cache w)\<rparr>))"
    if "\<not> reachable (redis_client (cache w))"
    using that
    by (simp add: predict_crowd_def Let_def get_prediction_unreachable get_prediction_miss
          predict_crowd_try_response split: option.splits)
  have b: "snd (predict_crowd L request w) = w" if "\<not> reachable (redis_client (cache w))"
    using that
    by (simp add: predict_crowd_def Let_def get_prediction_unreachable predict_crowd_try_def
          set_prediction_fails split: option.splits sum.splits prod.splits)
  show ?thesis
    using a b
    by (simp add: get_prediction_unreachable get_prediction_miss get_prediction_undecodable
          set_prediction_fails)
qed


lemma demo_prediction:
  "predict demo_library trained_demo demo_db ''t1'' ''s1'' ''08:00:00'' ''2024-01-15''
     = Inr (StrV ''light'', 1, default_feature_columns)"
  by (simp add: predict_def trained_demo_def demo_library_def demo_strptime_def number_of_def
        digit_of_def days_before_month_def is_leap_def demo_db_def query_stop_def query_trip_def
        query_route_def predict_features_def predict_row_def inference_features_def bind_result_def get_column_def
        label_transform_def set_column_def select_columns_def numerical_cols_def set_columns_def
        cell_at_def zone_or_unknown_def encode_def weekday_def toordinal_def days_before_year_def
        enumerate_eq_zip)

lemma demo_queries:
  "query_trip demo_db ''t1'' = Some \<lparr>trip_id = ''t1'', trip_route_id = ''r1''\<rparr>"
  "query_stop demo_db ''s1'' \<noteq> None"
  by (simp_all add: demo_db_def query_trip_def query_stop_def)

lemma demo_average: "get_historical_average ''t1'' ''s1'' demo_db = Some 20"
  by (subst get_historical_average_small [where xs = "[20]"])
     (simp_all add: matching_counts_def demo_db_def observe_def)

lemma demo_try_response:
  "fst (predict_crowd_try demo_library demo_request (demo_world trained_demo c)) = Inr demo_response"
  by (simp add: predict_crowd_try_def demo_world_def demo_request_def demo_prediction
        make_response_def demo_average demo_response_def)

lemma demo_predict_crowd_miss:
  "get_prediction (json_loads demo_library) c 100 ''t1'' ''s1'' ''08:00:00'' ''2024-01-15'' = PyNone
     \<Longrightarrow> fst (predict_crowd demo_library demo_request (demo_world trained_demo c)) = Inr demo_response"
  using demo_try_response [of c] demo_queries
  by (auto simp add: predict_crowd_def Let_def demo_world_def demo_request_def split: option.splits)

theorem cache_errors_degrade_to_miss_witness:
  "\<not> reachable (redis_client down_cache)
   \<and> get_prediction (json_loads demo_library) down_cache 100 ''t1'' ''s1'' ''08:00:00'' ''2024-01-15''
       = PyNone
   \<and> redis_get (redis_client corrupt_cache) 100 (cache_key ''t1'' ''s1'' ''08:00:00'' ''2024-01-15'')
       = Inr (Some ''{not json'')
   \<and> json_loads demo_library ''{not json'' = None
   \<and> get_prediction (json_loads demo_library) corrupt_cache 100 ''t1'' ''s1'' ''08:00:00'' ''2024-01-15''
       = PyNone
   \<and> set_prediction (json_dumps demo_library) down_cache 100 ''t1'' ''s1'' ''08:00:00'' ''2024-01-15''
         (response_dict demo_response) = (False, down_cache)
   \<and> \<not> reachable (redis_client (cache (demo_world trained_demo down_cache)))
   \<and> fst (predict_crowd demo_library demo_request (demo_world trained_demo down_cache))
       = Inr demo_response
   \<and> snd (predict_crowd demo_library demo_request (demo_world trained_demo down_cache))
       = demo_world trained_demo down_cache"
proof -
  have d: "\<not> reachable (redis_client down_cache)"
    by (simp add: down_cache_def)
  have g: "redis_get (redis_client corrupt_cache) 100 (cache_key ''t1'' ''s1'' ''08:00:00'' ''2024-01-15'')
       = Inr (Some ''{not json'')"
    by (simp add: corrupt_cache_def redis_get_def demo_key_def live_def)
  have l: "json_loads demo_library ''{not json'' = None"
    by (simp add: demo_library_def demo_bytes_def)
  have w: "\<not> reachable (redis_client (cache (demo_world trained_demo down_cache)))"
    by (simp add: demo_world_def down_cache_def)
  have m: "fst (predict_crowd demo_library demo_request (demo_world trained_demo down_cache))
             = Inr demo_response"
    by (rule demo_predict_crowd_miss) (simp add: get_prediction_unreachable d)
  note down = cache_errors_degrade_to_miss
            [where c = down_cache and loads = "json_loads demo_library" and now = 100
               and t = "''t1''" and s = "''s1''" and dt = "''08:00:00''" and d = "''2024-01-15''"
               and dumps = "json_dumps demo_library" and v = "response_dict demo_response"
               and w = "demo_world trained_demo down_cache" and L = demo_library
               and request = demo_request and bytes = "''{not json''"]
  note corrupt = cache_errors_degrade_to_miss
            [where c = corrupt_cache and loads = "json_loads demo_library" and now = 100
               and t = "''t1''" and s = "''s1''" and dt = "''08:00:00''" and d = "''2024-01-15''"
               and dumps = "json_dumps demo_library" and v = "response_dict demo_response"
               and w = "demo_world trained_demo down_cache" and L = demo_library
               and request = demo_request and bytes = "''{not json''"]
  have a1: "get_prediction (json_loads demo_library) down_cache 100 ''t1'' ''s1'' ''08:00:00''
              ''2024-01-15'' = PyNone"
    using down d by simp
  have a2: "get_prediction (json_loads demo_library) corrupt_cache 100 ''t1'' ''s1'' ''08:00:00''
              ''2024-01-15'' = PyNone"
    using corrupt g l by simp
  have a3: "set_prediction (json_dumps demo_library) down_cache 100 ''t1'' ''s1'' ''08:00:00''
              ''2024-01-15'' (response_dict demo_response) = (False, down_cache)"
    using down d by simp
  have a4: "snd (predict_crowd demo_library demo_request (demo_world trained_demo down_cache))
              = demo_world trained_demo down_cache"
    using down w by simp
  show ?thesis
    using a1 a2 a3 a4 d g l w m by simp
qed

lemma plain_append [simp]: "plain (a @ b) = (plain a \<and> plain b)"
  by (auto simp add: plain_def)

lemma plain_Cons [simp]: "plain (c # cs) = (\<not> glob_special c \<and> plain cs)"
  by (simp add: plain_def)

lemma plain_Nil [simp]: "plain []"
  by (simp add: plain_def)

lemma glob_plain_prefix:
  "plain lit \<Longrightarrow> rest \<noteq> [] \<Longrightarrow> glob None (lit @ p) (lit @ rest) = glob None p rest"
proof (induction lit)
  case Nil
  then show ?case by simp
next
  case (Cons x lit)
  then have "\<not> glob_special x" and "plain lit" by simp_all
  then show ?case
    using Cons by (simp add: glob_special_def)
qed

lemma glob_star_end: "rest \<noteq> [] \<Longrightarrow> glob None ''*'' rest"
  by (cases rest) simp_all

lemma glob_plain_star:
  "plain lit \<Longrightarrow> rest \<noteq> [] \<Longrightarrow> glob None (lit @ ''*'') (lit @ rest)"
  by (simp add: glob_plain_prefix glob_star_end)

lemma glob_star_then:
  assumes "p \<noteq> []" "hd p \<noteq> CHR ''*''" "s \<noteq> []" "glob None p s"
  shows "glob None (CHR ''*'' # p) s"
proof -
  obtain c cs where s: "s = c # cs"
    using assms(3) by (cases s) auto
  have k: "skip_stars p \<noteq> []"
    using assms(1,2) by (cases p) auto
  have "glob None (CHR ''*'' # p) (c # cs)"
    by (subst glob.simps(3)) (use k assms(4) s in \<open>simp del: glob.simps\<close>)
  then show ?thesis by (simp only: s)
qed

lemma invalidate_pattern_matches:
  assumes "plain T" "plain S"
  shows "stringmatch (invalidate_pattern (Some T) (Some S)) (cache_key T S dt d)"
proof -
  have colon: "\<not> glob_special CHR '':''" by (simp add: glob_special_def)
  have pre: "plain ''prediction:''" by (simp add: glob_special_def)
  consider (a) "T \<noteq> []" "S \<noteq> []" | (b) "T \<noteq> []" "S = []" | (c) "T = []" "S \<noteq> []"
    | (d) "T = []" "S = []" by blast
  then show ?thesis
  proof cases
    case a
    have "glob None ((''prediction:'' @ T @ '':'' @ S @ '':'') @ ''*'')
            ((''prediction:'' @ T @ '':'' @ S @ '':'') @ (dt @ '':'' @ d))"
      by (rule glob_plain_star) (use assms pre colon in simp_all)
    then show ?thesis
      using a by (simp add: stringmatch_def invalidate_pattern_def given_def cache_key_def)
  next
    case b
    have "glob None ((''prediction:'' @ T @ '':'') @ ''*'')
            ((''prediction:'' @ T @ '':'') @ ('':'' @ dt @ '':'' @ d))"
      by (rule glob_plain_star) (use assms pre colon in simp_all)
    then show ?thesis
      using b by (simp add: stringmatch_def invalidate_pattern_def given_def cache_key_def)
  next
    case c
    have 1: "glob None (('':'' @ S @ '':'') @ ''*'') (('':'' @ S @ '':'') @ (dt @ '':'' @ d))"
      by (rule glob_plain_star) (use assms colon in simp_all)
    have 2: "glob None (CHR ''*'' # ('':'' @ S @ '':*'')) ('':'' @ S @ '':'' @ dt @ '':'' @ d)"
      by (rule glob_star_then) (use 1 in simp_all)
    have "glob None (''prediction:'' @ (CHR ''*'' # ('':'' @ S @ '':*'')))
            (''prediction:'' @ ('':'' @ S @ '':'' @ dt @ '':'' @ d))"
      using 2 pre by (subst glob_plain_prefix) simp_all
    then show ?thesis
      using c by (simp add: stringmatch_def invalidate_pattern_def given_def cache_key_def)
  next
    case d
    have "glob None (''prediction:'' @ ''*'') (''prediction:'' @ ('':'' @ '':'' @ dt @ '':'' @ d))"
      by (rule glob_plain_star) (use pre in simp_all)
    then show ?thesis
      using d by (simp add: stringmatch_def invalidate_pattern_def given_def cache_key_def)
  qed
qed


lemma invalidate_removes:
  assumes "reachable (redis_client c)" "stringmatch (invalidate_pattern t s) K"
    and "e \<in> set (entries (redis_client (invalidate_predictions c now t s)))" "live now e"
  shows "fst e \<noteq> K"
proof
  assume k: "fst e = K"
  let ?keys = "filter (stringmatch (invalidate_pattern t s))
                 (map fst (filter (live now) (entries (redis_client c))))"
  have sub: "set (entries (redis_client (invalidate_predictions c now t s)))
               \<subseteq> set (entries (redis_client c))"
    using assms(1) by (auto simp add: invalidate_predictions_def redis_keys_def redis_delete_def)
  then have "e \<in> set (entries (redis_client c))"
    using assms(3) by blast
  then have "e \<in> set (filter (live now) (entries (redis_client c)))"
    using assms(4) by simp
  then have "fst e \<in> set (map fst (filter (live now) (entries (redis_client c))))"
    unfolding set_map by (rule imageI)
  then have in_keys: "K \<in> set ?keys"
    using assms(2) k by simp
  then have "?keys \<noteq> []" by (metis empty_iff list.set(1))
  then have "entries (redis_client (invalidate_predictions c now t s))
               = filter (\<lambda>e. fst e \<notin> set ?keys) (entries (redis_client c))"
    using assms(1) by (simp add: invalidate_predictions_def redis_keys_def redis_delete_def)
  then show False
    using assms(3) in_keys k by auto
qed

lemma live_mono: "now \<le> now' \<Longrightarrow> live now' e \<Longrightarrow> live now e"
  by (simp add: live_def)

lemma get_prediction_absent:
  assumes "\<And>e. e \<in> set (entries (redis_client c)) \<Longrightarrow> live now e \<Longrightarrow> fst e \<noteq> cache_key t s dt d"
  shows "get_prediction loads c now t s dt d = PyNone"
proof -
  have "cache_key t s dt d \<notin> fst ` set (filter (live now) (entries (redis_client c)))"
  proof
    assume "cache_key t s dt d \<in> fst ` set (filter (live now) (entries (redis_client c)))"
    then obtain e where "e \<in> set (entries (redis_client c))" "live now e"
      "fst e = cache_key t s dt d" by auto
    then show False using assms by blast
  qed
  then have "map_of (filter (live now) (entries (redis_client c))) (cache_key t s dt d) = None"
    by (simp add: map_of_eq_None_iff)
  then show ?thesis
    by (simp add: get_prediction_def redis_get_def)
qed

text \<open>
  C6, as amended. When the store answers and the trip and stop identifiers contain none of
  the characters \<open>*\<close>, \<open>?\<close>, \<open>[\<close> and backslash, a recorded observation
  leaves no visible cache entry for that trip and stop, whatever the time and date of its
  key: from then on a read for such a key is a miss, and \<open>predict_crowd\<close> for that trip
  and stop computes the prediction again.
\<close>

theorem observation_write_invalidates_cache:
  assumes "reachable (redis_client (cache w))"
    and "plain (obs_trip_id ob)" and "plain (obs_stop_id ob)"
    and "create_observation ob w = (Inr row, w')"
  shows "(\<forall>e \<in> set (entries (redis_client (cache w'))).
            live (clock w) e \<longrightarrow> fst e \<noteq> cache_key (obs_trip_id ob) (obs_stop_id ob) dt d)
         \<and> (clock w \<le> now \<longrightarrow>
              get_prediction loads (cache w') now (obs_trip_id ob) (obs_stop_id ob) dt d = PyNone)
         \<and> (req_trip_id request = obs_trip_id ob \<and> req_stop_id request = obs_stop_id ob \<longrightarrow>
              predict_crowd L request w' = predict_crowd_try L request w')"
proof -
  from assms(4) obtain trip stop where
    tr: "query_trip (dbase w) (obs_trip_id ob) = Some trip" and
    st: "query_stop (dbase w) (obs_stop_id ob) = Some stop" and
    w': "w' = w\<lparr>dbase := (dbase w)\<lparr>observations := observations (dbase w) @ [ob]\<rparr>,
               cache := invalidate_predictions (cache w) (clock w)
                          (Some (obs_trip_id ob)) (Some (obs_stop_id ob))\<rparr>"
    by (auto simp add: create_observation_def split: option.splits if_splits)
  have m: "stringmatch (invalidate_pattern (Some (obs_trip_id ob)) (Some (obs_stop_id ob)))
             (cache_key (obs_trip_id ob) (obs_stop_id ob) x y)" for x y
    using assms(2,3) by (rule invalidate_pattern_matches)
  have gone: "fst e \<noteq> cache_key (obs_trip_id ob) (obs_stop_id ob) x y"
    if "e \<in> set (entries (redis_client (cache w')))" "live (clock w) e" for e x y
    using invalidate_removes [OF assms(1) m _ that(2)] that(1) by (simp add: w')
  have miss: "get_prediction ld (cache w') n (obs_trip_id ob) (obs_stop_id ob) x y = PyNone"
    if "clock w \<le> n" for n x y ld
    by (rule get_prediction_absent) (use gone live_mono [OF that] in blast)
  have q: "query_trip (dbase w') (obs_trip_id ob) = Some trip"
          "query_stop (dbase w') (obs_stop_id ob) = Some stop"
    using tr st by (simp_all add: w' query_trip_def query_stop_def)
  have c: "clock w' = clock w" by (simp add: w')
  have "predict_crowd L request w' = predict_crowd_try L request w'"
    if "req_trip_id request = obs_trip_id ob" "req_stop_id request = obs_stop_id ob"
    using that q miss [of "clock w'"] c by (simp add: predict_crowd_def Let_def)
  then show ?thesis
    using gone miss by blast
qed


lemma create_second_observation:
  "create_observation second_observation (demo_world p c)
     = (Inr second_observation,
        (demo_world p c)
          \<lparr>dbase := demo_db\<lparr>observations := observations demo_db @ [second_observation]\<rparr>,
           cache := invalidate_predictions c 100 (Some ''t1'') (Some ''s1'')\<rparr>)"
  by (simp add: create_observation_def demo_world_def second_observation_def observe_def
        query_trip_def query_stop_def demo_db_def)

lemma warm_cache_hit:
  "get_prediction (json_loads demo_library) warm_cache 100 ''t1'' ''s1'' ''08:00:00'' ''2024-01-15''
     = response_dict demo_response"
  by (simp add: get_prediction_def redis_get_def warm_cache_def demo_key_def live_def
        demo_library_def demo_bytes_def)

lemma truthy_response_dict: "truthy (response_dict r)"
  by (simp add: response_dict_def)

lemma demo_response_of_dict: "response_of_dict demo_library (response_dict demo_response) = Inr demo_response"
  by (simp add: demo_library_def)

lemma predict_crowd_cached:
  assumes "get_prediction (json_loads L) (cache w) (clock w) (req_trip_id request)
             (req_stop_id request) (req_departure_time request) (req_date request) = v"
    and "truthy v"
  shows "predict_crowd L request w = (response_of_dict L v, w)"
  using assms by (simp add: predict_crowd_def Let_def)

theorem observation_write_invalidates_cache_witness:
  "reachable (redis_client (cache (demo_world trained_demo warm_cache)))
   \<and> plain (obs_trip_id second_observation) \<and> plain (obs_stop_id second_observation)
   \<and> fst (create_observation second_observation (demo_world trained_demo warm_cache))
       = Inr second_observation
   \<and> truthy (get_prediction (json_loads demo_library) (cache (demo_world trained_demo warm_cache))
               100 ''t1'' ''s1'' ''08:00:00'' ''2024-01-15'')
   \<and> get_prediction (json_loads demo_library)
         (cache (snd (create_observation second_observation (demo_world trained_demo warm_cache))))
         100 ''t1'' ''s1'' ''08:00:00'' ''2024-01-15'' = PyNone"
proof -
  let ?w = "demo_world trained_demo warm_cache"
  have r: "reachable (redis_client (cache ?w))"
    by (simp add: demo_world_def warm_cache_def)
  have p: "plain (obs_trip_id second_observation)" "plain (obs_stop_id second_observation)"
    by (simp_all add: second_observation_def observe_def plain_def glob_special_def)
  have c: "create_observation second_observation ?w
             = (Inr second_observation, snd (create_observation second_observation ?w))"
    by (simp add: create_second_observation)
  have i: "obs_trip_id second_observation = ''t1''" "obs_stop_id second_observation = ''s1''"
    "clock ?w = 100"
    by (simp_all add: second_observation_def observe_def demo_world_def)
  have h: "truthy (get_prediction (json_loads demo_library) (cache ?w)
               100 ''t1'' ''s1'' ''08:00:00'' ''2024-01-15'')"
    by (simp add: demo_world_def warm_cache_hit truthy_response_dict)
  have g: "get_prediction (json_loads demo_library)
         (cache (snd (create_observation second_observation ?w)))
         100 ''t1'' ''s1'' ''08:00:00'' ''2024-01-15'' = PyNone"
    using observation_write_invalidates_cache
            [OF r p c, where now = 100 and loads = "json_loads demo_library"
               and dt = "''08:00:00''" and d = "''2024-01-15''" and L = demo_library
               and request = demo_request]
    by (simp add: i)
  have f: "fst (create_observation second_observation ?w) = Inr second_observation"
    by (simp add: create_second_observation)
  show ?thesis
    using r p f h g by simp
qed

text \<open>
  C6 as stated fails: \<open>invalidate_predictions\<close> catches the error of an unreachable
  store, so the observation is recorded and answered while the entry stays. Once the store
  answers again, \<open>predict_crowd\<close> serves the old response, with the historical average
  20 where the table now gives 12.
\<close>

theorem observation_write_keeps_entries_when_unreachable:
  "fst (create_observation second_observation (demo_world trained_demo down_cache))
     = Inr second_observation
   \<and> (demo_key, demo_bytes, 3700)
       \<in> set (entries (redis_client (cache (snd (create_observation second_observation
                                                  (demo_world trained_demo down_cache))))))
   \<and> demo_key = cache_key (obs_trip_id second_observation) (obs_stop_id second_observation)
                   ''08:00:00'' ''2024-01-15''
   \<and> fst (predict_crowd demo_library demo_request
            (reconnect (snd (create_observation second_observation
                               (demo_world trained_demo down_cache)))))
       = Inr demo_response
   \<and> historical_average demo_response = Some 20
   \<and> get_historical_average ''t1'' ''s1''
        (dbase (snd (create_observation second_observation (demo_world trained_demo down_cache))))
       = Some 12"
proof -
  have i: "invalidate_predictions down_cache 100 (Some ''t1'') (Some ''s1'') = down_cache"
    by (simp add: invalidate_predictions_def redis_keys_def down_cache_def)
  have w: "reconnect (snd (create_observation second_observation (demo_world trained_demo down_cache)))
             = (demo_world trained_demo warm_cache)
                 \<lparr>dbase := demo_db\<lparr>observations := observations demo_db @ [second_observation]\<rparr>\<rparr>"
    unfolding create_second_observation snd_conv i
    by (simp add: reconnect_def demo_world_def down_cache_def warm_cache_def)
  have p: "fst (predict_crowd demo_library demo_request
                 ((demo_world trained_demo warm_cache)
                    \<lparr>dbase := demo_db\<lparr>observations := observations demo_db @ [second_observation]\<rparr>\<rparr>))
             = Inr demo_response"
    by (subst predict_crowd_cached [where v = "response_dict demo_response"])
       (simp_all add: demo_world_def demo_request_def warm_cache_hit truthy_response_dict
          demo_response_of_dict)
  have a: "get_historical_average ''t1'' ''s1''
             (demo_db\<lparr>observations := observations demo_db @ [second_observation]\<rparr>) = Some 12"
    by (subst get_historical_average_small [where xs = "[20, 5]"])
       (simp_all add: matching_counts_def demo_db_def observe_def second_observation_def)
  have k: "demo_key = cache_key (obs_trip_id second_observation) (obs_stop_id second_observation)
                   ''08:00:00'' ''2024-01-15''"
    by (simp add: demo_key_def second_observation_def observe_def)
  have e: "(demo_key, demo_bytes, 3700)
       \<in> set (entries (redis_client (cache (snd (create_observation second_observation
                                                  (demo_world trained_demo down_cache))))))"
    unfolding create_second_observation snd_conv i
    by (simp add: demo_world_def down_cache_def)
  have f: "fst (create_observation second_observation (demo_world trained_demo down_cache))
     = Inr second_observation"
    unfolding create_second_observation by simp
  have b: "get_historical_average ''t1'' ''s1''
        (dbase (snd (create_observation second_observation (demo_world trained_demo down_cache))))
       = Some 12"
    unfolding create_second_observation snd_conv
    by (simp add: a demo_world_def)
  show ?thesis
    using f e k b p by (simp add: w demo_response_def)
qed

text \<open>Running \<open>train\<close> on the sample frames, stage by stage.\<close>

lemma demo_frames:
  "demo_stops_df = \<lparr>columns = [''stop_id'', ''name'', ''latitude'', ''longitude'', ''zone_id''],
      rows = [[StrV ''s1'', StrV ''Union'', NumV 43, NumV (- 79), StrV ''A''],
              [StrV ''s2'', StrV ''Exhibition'', NumV 43, NumV (- 79), StrV ''B'']]\<rparr>"
  "demo_routes_df = \<lparr>columns = [''route_id'', ''long_name'', ''route_type''],
      rows = [[StrV ''r1'', StrV ''Lakeshore'', IntV 2]]\<rparr>"
  by (simp_all add: demo_stops_df_def demo_routes_df_def stops_frame_def routes_frame_def
        DataFrame_of_def demo_db_def opt_str_def)

lemma sample_weekday: "weekday sample_time = 0" "hour sample_time = 8" "month sample_time = 1"
  by (simp_all add: weekday_def toordinal_def days_before_year_def days_before_month_def
        is_leap_def sample_time_def)

lemma demo_join:
  "join_tables demo_observations_df demo_stops_df demo_routes_df = Inr
     \<lparr>columns = joined_columns @ [''hour'', ''day_of_week'', ''month'', ''is_weekend'', ''is_holiday''],
      rows = map timed_row (rows demo_observations_df)\<rparr>"
  by (simp add: join_tables_def time_features_def demo_frames merge_left_def
        demo_observations_df_def training_columns_def training_row_def cell_at_def
        bind_result_def get_column_def set_column_def to_datetime_def dt_field_def
        sample_weekday isin_5_6_def joined_columns_def joined_row_def timed_row_def Let_def)

lemma demo_amenities:
  "get_amenities_features rng0 demo_stops_df =
     (Inr \<lparr>columns = [''stop_id'', ''has_shelter'', ''has_washroom'', ''has_bike_rack'', ''has_bench''],
           rows = [[StrV ''s1'', IntV 0, IntV 0, IntV 0, IntV 0],
                   [StrV ''s2'', IntV 0, IntV 0, IntV 0, IntV 0]]\<rparr>,
      rng0\<lparr>pos := 8\<rparr>)"
  by (simp add: get_amenities_features_def demo_frames select_columns_def bind_result_def
        cell_at_def random_choice_def rng0_def set_column_def Let_def upt_rec)

lemma demo_fill:
  "fill_missing
     \<lparr>columns = joined_columns @ [''hour'', ''day_of_week'', ''month'', ''is_weekend'', ''is_holiday''],
      rows = map timed_row (rows demo_observations_df)\<rparr>
     \<lparr>columns = [''stop_id'', ''has_shelter'', ''has_washroom'', ''has_bike_rack'', ''has_bench''],
      rows = [[StrV ''s1'', IntV 0, IntV 0, IntV 0, IntV 0],
              [StrV ''s2'', IntV 0, IntV 0, IntV 0, IntV 0]]\<rparr>
   = Inr \<lparr>columns = prepared_columns, rows = map prepared_row (rows demo_observations_df)\<rparr>"
  by (simp add: fill_missing_def merge_left_def demo_observations_df_def training_columns_def
        training_row_def cell_at_def bind_result_def get_column_def set_column_def
        fillna_column_def fillna_def joined_columns_def joined_row_def timed_row_def
        prepared_row_def prepared_columns_def Let_def)

lemma demo_prepare:
  "prepare_features rng0 demo_observations_df demo_stops_df demo_routes_df
     = (Inr \<lparr>columns = prepared_columns, rows = map prepared_row (rows demo_observations_df)\<rparr>,
        rng0\<lparr>pos := 8\<rparr>)"
  by (simp add: prepare_features_def demo_join demo_amenities demo_fill)

lemma demo_select:
  "select_columns prepared default_feature_columns
   = Inr \<lparr>columns = default_feature_columns, rows = map (feature_row (StrV ''A'')) [1, 2, 3, 4, 5, 6]\<rparr>"
  by (simp add: select_columns_def bind_result_def prepared_columns_def joined_columns_def
        training_columns_def default_feature_columns_def cell_at_def prepared_row_def
        timed_row_def joined_row_def demo_observations_df_def training_row_def prepared_def
        feature_row_def)

lemma demo_target: "get_column prepared ''crowd_level'' = Inr demo_labels"
  by (simp add: get_column_def prepared_columns_def joined_columns_def
        training_columns_def cell_at_def prepared_row_def
        timed_row_def joined_row_def demo_observations_df_def training_row_def prepared_def
        demo_labels_def)

lemma demo_encoder:
  "bind_result (get_column \<lparr>columns = default_feature_columns,
                             rows = map (feature_row (StrV ''A'')) [1, 2, 3, 4, 5, 6]\<rparr> ''zone_id'')
     label_fit_transform = Inr ([''A''], replicate 6 (IntV 0))"
  by (simp add: bind_result_def get_column_def default_feature_columns_def cell_at_def
        feature_row_def label_fit_transform_def encode_def numeral_eq_Suc)

lemma demo_encoded:
  "set_column \<lparr>columns = default_feature_columns,
               rows = map (feature_row (StrV ''A'')) [1, 2, 3, 4, 5, 6]\<rparr> ''zone_id''
     (replicate 6 (IntV 0))
   = \<lparr>columns = default_feature_columns, rows = map (feature_row (IntV 0)) [1, 2, 3, 4, 5, 6]\<rparr>"
  by (simp add: set_column_def default_feature_columns_def feature_row_def numeral_eq_Suc)

lemma demo_numeric:
  "select_columns \<lparr>columns = default_feature_columns,
                    rows = map (feature_row z) [1, 2, 3, 4, 5, 6]\<rparr> numerical_cols
   = Inr \<lparr>columns = numerical_cols, rows = map numeric_row [1, 2, 3, 4, 5, 6]\<rparr>"
  by (simp add: select_columns_def bind_result_def default_feature_columns_def cell_at_def
        feature_row_def numeric_row_def numerical_cols_def)

lemma demo_rescaled:
  "set_columns \<lparr>columns = default_feature_columns,
                 rows = map (feature_row z) [1, 2, 3, 4, 5, 6]\<rparr> numerical_cols
     (map numeric_row [1, 2, 3, 4, 5, 6])
   = \<lparr>columns = default_feature_columns, rows = map (feature_row z) [1, 2, 3, 4, 5, 6]\<rparr>"
  by (simp add: set_columns_def set_column_def default_feature_columns_def cell_at_def
        feature_row_def numeric_row_def numerical_cols_def enumerate_eq_zip upt_rec)

lemma demo_split_result:
  "demo_split (map (feature_row z) [1, 2, 3, 4, 5, 6]) demo_labels
     = Inr (map (feature_row z) [3, 4, 5, 6], map (feature_row z) [1, 2], drop 2 demo_labels,
            take 2 demo_labels)"
  by (simp add: demo_split_def demo_labels_def count_of_def Let_def)

lemma demo_library_simps:
  "scaler_fit demo_library sc X = (None, X)"
  "scaler_transform demo_library sc row = Inr row"
  "train_test_split demo_library = demo_split"
  "model_fit demo_library m X y = (None, (X, y))"
  "model_predict demo_library m row = (case snd m of [] \<Rightarrow> Inl (ValueError ''not fitted'') | lv # _ \<Rightarrow> Inr lv)"
  "model_predict_proba demo_library m row = Inr [1]"
  "classification_report demo_library b yt yp = Inr ''report''"
  "strptime demo_library = demo_strptime"
  by (simp_all add: demo_library_def)

lemma sequence_result_Inr: "sequence_result (map Inr xs) = Inr xs"
  by (induction xs) simp_all

lemma demo_transform:
  "sequence_result (map (scaler_transform demo_library sc) xs) = Inr xs"
  by (induction xs) (simp_all add: demo_library_simps)

lemma demo_train_fit:
  "train_fit demo_library p
     (map (feature_row z) [3, 4, 5, 6], map (feature_row z) [1, 2], drop 2 demo_labels,
      take 2 demo_labels)
   = (Inr (NumV (1 / 2), ''report''),
      p\<lparr>model := (map (feature_row z) [3, 4, 5, 6], drop 2 demo_labels), is_trained := True\<rparr>)"
  by (simp add: train_fit_def demo_library_simps demo_labels_def accuracy_score_def Let_def)

lemma demo_train_scale:
  "train_scale demo_library p
     \<lparr>columns = default_feature_columns, rows = map (feature_row z) [1, 2, 3, 4, 5, 6]\<rparr>
     demo_labels
   = (Inr (NumV (1 / 2), ''report''),
      p\<lparr>scaler := map numeric_row [1, 2, 3, 4, 5, 6],
        model := (map (feature_row z) [3, 4, 5, 6], drop 2 demo_labels), is_trained := True\<rparr>)"
  by (simp add: train_scale_def demo_numeric demo_library_simps Let_def demo_rescaled
        demo_split_result demo_train_fit demo_transform del: list.map map_map)

lemma demo_train_encode:
  "train_encode demo_library untrained prepared = (Inr (NumV (1 / 2), ''report''), retrained)"
proof -
  have f: "feature_columns untrained = default_feature_columns"
    by (simp add: untrained_def CrowdPredictor_init_def)
  show ?thesis
    by (simp add: train_encode_def f demo_select demo_target demo_encoder demo_encoded
          demo_train_scale retrained_def untrained_def CrowdPredictor_init_def
          del: list.map map_map)
qed

lemma demo_train:
  "train demo_library untrained rng0 demo_observations_df demo_stops_df demo_routes_df
     = (Inr (NumV (1 / 2), ''report''), retrained, rng0\<lparr>pos := 8\<rparr>)"
  by (simp add: train_def demo_prepare prepared_def [symmetric] demo_train_encode)

lemma strings_of_Some: "strings_of col = Some zones \<Longrightarrow> col = map StrV zones"
  by (induction col arbitrary: zones) (auto split: cell.splits option.splits)

lemma train_fit_success:
  "train_fit L p split = (Inr res, p') \<Longrightarrow>
     is_trained p' \<and> label_encoder p' = label_encoder p \<and> scaler p' = scaler p
     \<and> feature_columns p' = feature_columns p"
  by (auto simp add: train_fit_def Let_def split: prod.splits option.splits sum.splits)

lemma train_scale_success:
  "train_scale L p X y = (Inr res, p') \<Longrightarrow>
     is_trained p' \<and> label_encoder p' = label_encoder p \<and> feature_columns p' = feature_columns p"
  by (auto simp add: train_scale_def Let_def split: prod.splits option.splits sum.splits
        dest!: train_fit_success)

lemma train_encode_success:
  assumes "train_encode L p df = (Inr res, p')"
  shows "is_trained p' \<and> feature_columns p' = feature_columns p
         \<and> (\<exists>X col zones. select_columns df (feature_columns p) = Inr X
               \<and> get_column X ''zone_id'' = Inr col \<and> col = map StrV zones
               \<and> label_encoder p' = Some (sort (remdups zones)))"
  using assms
  by (auto simp add: train_encode_def bind_result_def label_fit_transform_def Let_def
        split: prod.splits option.splits sum.splits
        dest!: train_scale_success strings_of_Some)

lemma train_success:
  assumes "train L p g observations_df stops_df routes_df = (Inr res, p', g')"
  shows "is_trained p' \<and> feature_columns p' = feature_columns p
         \<and> (\<exists>df X zones. prepare_features g observations_df stops_df routes_df = (Inr df, g')
               \<and> select_columns df (feature_columns p) = Inr X
               \<and> get_column X ''zone_id'' = Inr (map StrV zones)
               \<and> label_encoder p' = Some (sort (remdups zones)))"
  using assms
  by (auto simp add: train_def split: prod.splits sum.splits dest!: train_encode_success)

lemma predict_features_zone:
  "get_column \<lparr>columns = map fst (predict_features dt st route),
               rows = [map snd (predict_features dt st route)]\<rparr> ''zone_id''
     = Inr [StrV (zone_or_unknown (stop_zone_id st))]"
  by (simp add: get_column_def predict_features_def cell_at_def)

lemma predict_unseen_zone:
  assumes "is_trained p" "label_encoder p = Some classes"
    and "query_stop d stop = Some st" "zone_or_unknown (stop_zone_id st) \<notin> set classes"
  shows "\<exists>msg. predict L p d trip stop departure_time date = Inl (ValueError msg)"
proof (cases "strptime L (date @ '' '' @ departure_time)")
  case None
  then show ?thesis using assms(1) by (simp add: predict_def)
next
  case (Some dt)
  show ?thesis
  proof (cases "query_trip d trip")
    case None
    then show ?thesis using assms(1,3) Some by (simp add: predict_def)
  next
    case (Some tr)
    have "predict_row L p \<lparr>columns = map fst (predict_features dt st (query_route d (trip_route_id tr))),
               rows = [map snd (predict_features dt st (query_route d (trip_route_id tr)))]\<rparr>
            = Inl (ValueError ''y contains previously unseen labels'')"
      using assms(2,4)
      by (simp add: predict_row_def inference_features_def predict_features_zone bind_result_def label_transform_def)
    then show ?thesis
      using assms(1,3) Some \<open>strptime L (date @ '' '' @ departure_time) = Some dt\<close>
      by (simp add: predict_def Let_def)
  qed
qed

text \<open>
  C10. After a successful training run, a call of \<open>predict\<close> for a stop whose zone
  (with \<open>unknown\<close> for a missing or empty one) is not in the zone column of the
  training features raises a \<open>ValueError\<close>, since the fitted encoder rejects the
  label, and the \<open>try\<close> block of \<open>predict_crowd\<close> answers with status 400
  instead of a prediction.
\<close>

theorem unseen_zone_is_rejected_with_400:
  assumes "train L p0 g observations_df stops_df routes_df = (Inr res, predictor w, g')"
    and "fst (prepare_features g observations_df stops_df routes_df) = Inr df"
    and "select_columns df (feature_columns p0) = Inr X"
    and "get_column X ''zone_id'' = Inr zone_column"
    and "query_stop (dbase w) (req_stop_id request) = Some st"
    and "StrV (zone_or_unknown (stop_zone_id st)) \<notin> set zone_column"
  shows "\<exists>msg. predict L (predictor w) (dbase w) (req_trip_id request) (req_stop_id request)
                 (req_departure_time request) (req_date request) = Inl (ValueError msg)
               \<and> predict_crowd_try L request w = (Inl (HTTPException 400 msg), w)
               \<and> status_code (fst (predict_crowd_try L request w)) = 400"
proof -
  from train_success [OF assms(1)] obtain zones where
    t: "is_trained (predictor w)" and
    z: "zone_column = map StrV zones" and
    e: "label_encoder (predictor w) = Some (sort (remdups zones))"
    using assms(2,3,4) by auto
  have "zone_or_unknown (stop_zone_id st) \<notin> set (sort (remdups zones))"
    using assms(6) z by auto
  from predict_unseen_zone [OF t e assms(5) this]
  obtain msg where
    "predict L (predictor w) (dbase w) (req_trip_id request) (req_stop_id request)
       (req_departure_time request) (req_date request) = Inl (ValueError msg)"
    by blast
  then show ?thesis
    by (auto simp add: predict_crowd_try_def predict_handler_def status_code_def)
qed

lemma demo_zone_column: "get_column demo_features ''zone_id'' = Inr (replicate 6 (StrV ''A''))"
  by (simp add: get_column_def demo_features_def default_feature_columns_def cell_at_def
        feature_row_def numeral_eq_Suc)

theorem unseen_zone_is_rejected_with_400_witness:
  "train demo_library untrained rng0 demo_observations_df demo_stops_df demo_routes_df
     = (Inr (NumV (1 / 2), ''report''), predictor (demo_world retrained empty_cache),
        rng0\<lparr>pos := 8\<rparr>)
   \<and> fst (prepare_features rng0 demo_observations_df demo_stops_df demo_routes_df) = Inr prepared
   \<and> select_columns prepared (feature_columns untrained) = Inr demo_features
   \<and> get_column demo_features ''zone_id'' = Inr (replicate 6 (StrV ''A''))
   \<and> query_stop (dbase (demo_world retrained empty_cache)) (req_stop_id request_s2)
       = Some \<lparr>stop_id = ''s2'', stop_name = ''Exhibition'', stop_latitude = 43,
               stop_longitude = - 79, stop_zone_id = Some ''B''\<rparr>
   \<and> StrV (zone_or_unknown (Some ''B'')) \<notin> set (replicate 6 (StrV ''A''))
   \<and> status_code (fst (predict_crowd_try demo_library request_s2
                          (demo_world retrained empty_cache))) = 400"
proof -
  let ?w = "demo_world retrained empty_cache"
  let ?st = "\<lparr>stop_id = ''s2'', stop_name = ''Exhibition'', stop_latitude = 43,
               stop_longitude = - 79, stop_zone_id = Some ''B''\<rparr>"
  have t: "train demo_library untrained rng0 demo_observations_df demo_stops_df demo_routes_df
     = (Inr (NumV (1 / 2), ''report''), predictor ?w, rng0\<lparr>pos := 8\<rparr>)"
    by (simp add: demo_train demo_world_def)
  have p: "fst (prepare_features rng0 demo_observations_df demo_stops_df demo_routes_df) = Inr prepared"
    by (simp add: demo_prepare prepared_def)
  have x: "select_columns prepared (feature_columns untrained) = Inr demo_features"
    by (simp add: untrained_def CrowdPredictor_init_def demo_select demo_features_def)
  have q: "query_stop (dbase ?w) (req_stop_id request_s2) = Some ?st"
    by (simp add: demo_world_def request_s2_def query_stop_def demo_db_def)
  have u: "StrV (zone_or_unknown (stop_zone_id ?st)) \<notin> set (replicate 6 (StrV ''A''))"
    by (simp add: zone_or_unknown_def)
  have "status_code (fst (predict_crowd_try demo_library request_s2 ?w)) = 400"
    using unseen_zone_is_rejected_with_400 [OF t p x demo_zone_column q u] by blast
  then show ?thesis
    using t p x demo_zone_column q u by simp
qed

lemma train_model_cache: "cache (snd (train_model L w)) = cache w"
  by (simp add: train_model_def Let_def split: prod.splits sum.splits)

text \<open>
  C9. Training never touches the prediction cache: \<open>train_model\<close> leaves the cache
  manager as it was, and \<open>train\<close> has no access to it. So after a successful
  training run has replaced the predictor, a prediction that is still cached (not expired,
  not invalidated) is served exactly as before the run, and serving it changes nothing in
  the cache.
\<close>

theorem retraining_keeps_cached_predictions:
  assumes "train L (predictor w) (np_random w) observations_df stops_df routes_df = (Inr res, p', g')"
    and "get_prediction (json_loads L) (cache w) now (req_trip_id request) (req_stop_id request)
           (req_departure_time request) (req_date request) = v"
    and "truthy v"
  shows "cache (snd (train_model L w)) = cache w
         \<and> predict_crowd L request (w\<lparr>predictor := p', np_random := g', clock := now\<rparr>)
             = (response_of_dict L v, w\<lparr>predictor := p', np_random := g', clock := now\<rparr>)
         \<and> fst (predict_crowd L request (w\<lparr>predictor := p', np_random := g', clock := now\<rparr>))
             = fst (predict_crowd L request (w\<lparr>clock := now\<rparr>))
         \<and> cache (snd (predict_crowd L request (w\<lparr>predictor := p', np_random := g', clock := now\<rparr>)))
             = cache w"
proof -
  have a: "predict_crowd L request (w\<lparr>predictor := p', np_random := g', clock := now\<rparr>)
             = (response_of_dict L v, w\<lparr>predictor := p', np_random := g', clock := now\<rparr>)"
    by (rule predict_crowd_cached [where v = v]) (use assms(2,3) in simp_all)
  have b: "predict_crowd L request (w\<lparr>clock := now\<rparr>) = (response_of_dict L v, w\<lparr>clock := now\<rparr>)"
    by (rule predict_crowd_cached [where v = v]) (use assms(2,3) in simp_all)
  show ?thesis
    by (simp add: a b train_model_cache)
qed

theorem retraining_keeps_cached_predictions_witness:
  "train demo_library (predictor (demo_world untrained warm_cache))
       (np_random (demo_world untrained warm_cache))
       demo_observations_df demo_stops_df demo_routes_df
     = (Inr (NumV (1 / 2), ''report''), retrained, rng0\<lparr>pos := 8\<rparr>)
   \<and> get_prediction (json_loads demo_library) (cache (demo_world untrained warm_cache)) 100
         (req_trip_id demo_request) (req_stop_id demo_request) (req_departure_time demo_request)
         (req_date demo_request) = response_dict demo_response
   \<and> truthy (response_dict demo_response)
   \<and> model retrained \<noteq> model untrained
   \<and> fst (predict_crowd demo_library demo_request
            ((demo_world untrained warm_cache)
               \<lparr>predictor := retrained, np_random := rng0\<lparr>pos := 8\<rparr>, clock := 100\<rparr>))
       = Inr demo_response"
proof -
  let ?w = "demo_world untrained warm_cache"
  have t: "train demo_library (predictor ?w) (np_random ?w)
             demo_observations_df demo_stops_df demo_routes_df
           = (Inr (NumV (1 / 2), ''report''), retrained, rng0\<lparr>pos := 8\<rparr>)"
    by (simp add: demo_world_def demo_train)
  have h: "get_prediction (json_loads demo_library) (cache ?w) 100
         (req_trip_id demo_request) (req_stop_id demo_request) (req_departure_time demo_request)
         (req_date demo_request) = response_dict demo_response"
    by (simp add: demo_world_def demo_request_def warm_cache_hit)
  have m: "model retrained \<noteq> model untrained"
    by (simp add: retrained_def untrained_def CrowdPredictor_init_def)
  have "fst (predict_crowd demo_library demo_request
            (?w\<lparr>predictor := retrained, np_random := rng0\<lparr>pos := 8\<rparr>, clock := 100\<rparr>))
       = Inr demo_response"
    using retraining_keeps_cached_predictions [OF t h truthy_response_dict]
    by (simp add: demo_response_of_dict)
  then show ?thesis
    using t h m truthy_response_dict by simp
qed

lemma join_tables_of_tables:
  "obs \<noteq> [] \<Longrightarrow>
     \<exists>k. join_tables (observations_frame obs) (stops_frame ss) (routes_frame rs) = Inl (KeyError k)"
  by (cases "ss = []")
     (simp_all add: join_tables_def observations_frame_def stops_frame_def DataFrame_of_def
        merge_left_def bind_result_def Let_def)

text \<open>
  Through the endpoint a training run cannot succeed: the observation frame that
  \<open>train_model\<close> builds has no \<open>route_id\<close> column (and no
  \<open>stop_sequence\<close>), so the join on \<open>route_id\<close> raises \<open>KeyError\<close> and the
  answer has status 500. Successful runs are runs of \<open>train\<close> on frames that have
  these columns.
\<close>

lemma train_model_never_succeeds: "status_code (fst (train_model L w)) = 500"
proof (cases "observations (dbase w) = []")
  case True
  then show ?thesis
    by (simp add: train_model_def train_handler_def status_code_def)
next
  case False
  from join_tables_of_tables [OF False] obtain k where
    "join_tables (observations_frame (observations (dbase w))) (stops_frame (stops (dbase w)))
       (routes_frame (routes (dbase w))) = Inl (KeyError k)"
    by blast
  then show ?thesis
    using False
    by (simp add: train_model_def train_def prepare_features_def train_handler_def
          status_code_def)
qed

lemma cx_join:
  "join_tables cx_observations_df demo_stops_df demo_routes_df = Inr
     \<lparr>columns = joined_columns @ [''hour'', ''day_of_week'', ''month'', ''is_weekend'', ''is_holiday''],
      rows = map (\<lambda>r. take 16 (cx_prepared_row r)) (rows cx_observations_df)\<rparr>"
  by (simp add: join_tables_def time_features_def demo_frames merge_left_def
        cx_observations_df_def training_columns_def training_row_def cell_at_def
        bind_result_def get_column_def set_column_def to_datetime_def dt_field_def
        sample_weekday isin_5_6_def joined_columns_def cx_prepared_row_def Let_def)

lemma cx_fill:
  "fill_missing
     \<lparr>columns = joined_columns @ [''hour'', ''day_of_week'', ''month'', ''is_weekend'', ''is_holiday''],
      rows = map (\<lambda>r. take 16 (cx_prepared_row r)) (rows cx_observations_df)\<rparr>
     \<lparr>columns = [''stop_id'', ''has_shelter'', ''has_washroom'', ''has_bike_rack'', ''has_bench''],
      rows = [[StrV ''s1'', IntV 0, IntV 0, IntV 0, IntV 0],
              [StrV ''s2'', IntV 0, IntV 0, IntV 0, IntV 0]]\<rparr>
   = Inr cx_prepared"
  by (simp add: fill_missing_def merge_left_def cx_observations_df_def training_columns_def
        training_row_def cell_at_def bind_result_def get_column_def set_column_def
        fillna_column_def fillna_def joined_columns_def cx_prepared_row_def cx_prepared_def
        prepared_columns_def Let_def)

lemma cx_prepare:
  "prepare_features rng0 cx_observations_df demo_stops_df demo_routes_df
     = (Inr cx_prepared, rng0\<lparr>pos := 8\<rparr>)"
  by (simp add: prepare_features_def cx_join demo_amenities cx_fill)

lemma cx_select:
  "select_columns cx_prepared default_feature_columns = Inr (cx_features (StrV ''B''))"
  by (simp add: select_columns_def bind_result_def prepared_columns_def joined_columns_def
        training_columns_def default_feature_columns_def cell_at_def cx_prepared_row_def
        cx_observations_df_def training_row_def cx_prepared_def cx_features_def feature_row_def)

lemma cx_target: "get_column cx_prepared ''crowd_level'' = Inr cx_labels"
  by (simp add: get_column_def prepared_columns_def joined_columns_def
        training_columns_def cell_at_def cx_prepared_row_def
        cx_observations_df_def training_row_def cx_prepared_def cx_labels_def)

lemma cx_zone_column:
  "get_column (cx_features (StrV ''B'')) ''zone_id'' = Inr (map StrV [''B'', ''B'', ''B''])"
  by (simp add: get_column_def cx_features_def default_feature_columns_def cell_at_def
        feature_row_def)

lemma cx_encoded:
  "set_column (cx_features (StrV ''B'')) ''zone_id''
     (map (encode (sort (remdups [''B'', ''B'', ''B'']))) [''B'', ''B'', ''B''])
   = cx_features (IntV 0)"
  by (simp add: set_column_def cx_features_def default_feature_columns_def feature_row_def
        encode_def)

lemma cx_numeric:
  "select_columns (cx_features z) numerical_cols
     = Inr \<lparr>columns = numerical_cols, rows = map numeric_row [1, 2, 3]\<rparr>"
  by (simp add: select_columns_def bind_result_def default_feature_columns_def cell_at_def
        feature_row_def numeric_row_def numerical_cols_def cx_features_def)

lemma cx_rescaled:
  "set_columns (cx_features z) numerical_cols (map numeric_row [1, 2, 3]) = cx_features z"
  by (simp add: set_columns_def set_column_def default_feature_columns_def cell_at_def
        feature_row_def numeric_row_def numerical_cols_def enumerate_eq_zip upt_rec
        cx_features_def)

lemma cx_split: "demo_split (rows (cx_features z)) cx_labels = Inl split_error"
  by (simp add: demo_split_def cx_labels_def count_of_def Let_def split_error_def)

lemma train_prepare_failure:
  "fst (prepare_features g observations_df stops_df routes_df) = Inl e \<Longrightarrow>
     train L p g observations_df stops_df routes_df
       = (Inl e, p, snd (prepare_features g observations_df stops_df routes_df))"
  by (cases "prepare_features g observations_df stops_df routes_df") (simp add: train_def)

lemma train_split_failure:
  assumes "fst (prepare_features g observations_df stops_df routes_df) = Inr df"
    and "select_columns df (feature_columns p) = Inr X"
    and "get_column df ''crowd_level'' = Inr y"
    and "get_column X ''zone_id'' = Inr (map StrV zones)"
    and "select_columns (set_column X ''zone_id'' (map (encode (sort (remdups zones))) zones))
           numerical_cols = Inr numeric"
    and "scaler_fit L (scaler p) (rows numeric) = (None, sc')"
    and "sequence_result (map (scaler_transform L sc') (rows numeric)) = Inr scaled"
    and "train_test_split L
           (rows (set_columns (set_column X ''zone_id'' (map (encode (sort (remdups zones))) zones))
                    numerical_cols scaled)) y = Inl e"
  shows "train L p g observations_df stops_df routes_df
           = (Inl e, p\<lparr>label_encoder := Some (sort (remdups zones)), scaler := sc'\<rparr>,
              snd (prepare_features g observations_df stops_df routes_df))"
proof -
  have s: "strings_of (map StrV zones) = Some zones"
    by (induction zones) simp_all
  have "train_scale L (p\<lparr>label_encoder := Some (sort (remdups zones))\<rparr>)
          (set_column X ''zone_id'' (map (encode (sort (remdups zones))) zones)) y
        = (Inl e, p\<lparr>label_encoder := Some (sort (remdups zones)), scaler := sc'\<rparr>)"
    using assms(5,6,7,8) by (simp add: train_scale_def Let_def)
  then have "train_encode L p df
        = (Inl e, p\<lparr>label_encoder := Some (sort (remdups zones)), scaler := sc'\<rparr>)"
    using assms(2,3,4) s
    by (simp add: train_encode_def bind_result_def label_fit_transform_def Let_def)
  then show ?thesis
    using assms(1)
    by (cases "prepare_features g observations_df stops_df routes_df") (simp add: train_def)
qed

lemma cx_train:
  "train demo_library trained_demo rng0 cx_observations_df demo_stops_df demo_routes_df
     = (Inl split_error,
        trained_demo\<lparr>label_encoder := Some [''B''], scaler := map numeric_row [1, 2, 3]\<rparr>,
        rng0\<lparr>pos := 8\<rparr>)"
proof -
  have f: "feature_columns trained_demo = default_feature_columns"
    by (simp add: trained_demo_def)
  have "train demo_library trained_demo rng0 cx_observations_df demo_stops_df demo_routes_df
     = (Inl split_error,
        trained_demo\<lparr>label_encoder := Some (sort (remdups [''B'', ''B'', ''B''])),
                       scaler := map numeric_row [1, 2, 3]\<rparr>,
        snd (prepare_features rng0 cx_observations_df demo_stops_df demo_routes_df))"
  proof (rule train_split_failure)
    show "fst (prepare_features rng0 cx_observations_df demo_stops_df demo_routes_df) = Inr cx_prepared"
      by (simp add: cx_prepare)
    show "select_columns cx_prepared (feature_columns trained_demo) = Inr (cx_features (StrV ''B''))"
      by (simp add: f cx_select)
    show "get_column cx_prepared ''crowd_level'' = Inr cx_labels"
      by (rule cx_target)
    show "get_column (cx_features (StrV ''B'')) ''zone_id'' = Inr (map StrV [''B'', ''B'', ''B''])"
      by (rule cx_zone_column)
    show "select_columns (set_column (cx_features (StrV ''B'')) ''zone_id''
             (map (encode (sort (remdups [''B'', ''B'', ''B'']))) [''B'', ''B'', ''B'']))
           numerical_cols = Inr \<lparr>columns = numerical_cols, rows = map numeric_row [1, 2, 3]\<rparr>"
      by (simp only: cx_encoded cx_numeric)
    show "scaler_fit demo_library (scaler trained_demo)
            (rows \<lparr>columns = numerical_cols, rows = map numeric_row [1, 2, 3]\<rparr>)
          = (None, map numeric_row [1, 2, 3])"
      by (simp add: demo_library_simps del: list.map)
    show "sequence_result (map (scaler_transform demo_library (map numeric_row [1, 2, 3]))
            (rows \<lparr>columns = numerical_cols, rows = map numeric_row [1, 2, 3]\<rparr>))
          = Inr (map numeric_row [1, 2, 3])"
      by (simp add: demo_transform del: list.map map_map)
    show "train_test_split demo_library
           (rows (set_columns (set_column (cx_features (StrV ''B'')) ''zone_id''
                    (map (encode (sort (remdups [''B'', ''B'', ''B'']))) [''B'', ''B'', ''B'']))
                    numerical_cols (map numeric_row [1, 2, 3]))) cx_labels = Inl split_error"
      by (simp only: cx_encoded cx_rescaled demo_library_simps cx_split)
  qed
  then show ?thesis
    by (simp add: cx_prepare)
qed

lemma cx_prediction:
  "predict demo_library
     (trained_demo\<lparr>label_encoder := Some [''B''], scaler := map numeric_row [1, 2, 3]\<rparr>)
     demo_db ''t1'' ''s1'' ''08:00:00'' ''2024-01-15''
   = Inl (ValueError ''y contains previously unseen labels'')"
  by (simp add: predict_def trained_demo_def demo_library_def demo_strptime_def number_of_def
        digit_of_def days_before_month_def is_leap_def demo_db_def query_stop_def query_trip_def
        query_route_def predict_row_def inference_features_def predict_features_zone bind_result_def
        label_transform_def zone_or_unknown_def Let_def)

text \<open>
  C1, as amended. A training run that fails in feature preparation leaves the model bundle
  exactly as it was. A run that fails in the stratified split leaves the classifier and the
  trained flag as they were, but the encoder and the scaler have been fitted in place before
  the split and stay fitted on the new data.
\<close>

theorem failed_training_partial_update:
  "(fst (prepare_features g observations_df stops_df routes_df) = Inl e
      \<longrightarrow> fst (snd (train L p g observations_df stops_df routes_df)) = p)
   \<and> (fst (prepare_features g observations_df stops_df routes_df) = Inr df
       \<and> select_columns df (feature_columns p) = Inr X
       \<and> get_column df ''crowd_level'' = Inr y
       \<and> get_column X ''zone_id'' = Inr (map StrV zones)
       \<and> select_columns (set_column X ''zone_id'' (map (encode (sort (remdups zones))) zones))
             numerical_cols = Inr numeric
       \<and> scaler_fit L (scaler p) (rows numeric) = (None, sc')
       \<and> sequence_result (map (scaler_transform L sc') (rows numeric)) = Inr scaled
       \<and> train_test_split L
             (rows (set_columns (set_column X ''zone_id'' (map (encode (sort (remdups zones))) zones))
                      numerical_cols scaled)) y = Inl e
      \<longrightarrow> fst (train L p g observations_df stops_df routes_df) = Inl e
          \<and> fst (snd (train L p g observations_df stops_df routes_df))
              = p\<lparr>label_encoder := Some (sort (remdups zones)), scaler := sc'\<rparr>
          \<and> model (fst (snd (train L p g observations_df stops_df routes_df))) = model p
          \<and> is_trained (fst (snd (train L p g observations_df stops_df routes_df))) = is_trained p)"
proof (intro conjI impI)
  assume "fst (prepare_features g observations_df stops_df routes_df) = Inl e"
  then show "fst (snd (train L p g observations_df stops_df routes_df)) = p"
    by (simp add: train_prepare_failure)
next
  assume a: "fst (prepare_features g observations_df stops_df routes_df) = Inr df
       \<and> select_columns df (feature_columns p) = Inr X
       \<and> get_column df ''crowd_level'' = Inr y
       \<and> get_column X ''zone_id'' = Inr (map StrV zones)
       \<and> select_columns (set_column X ''zone_id'' (map (encode (sort (remdups zones))) zones))
             numerical_cols = Inr numeric
       \<and> scaler_fit L (scaler p) (rows numeric) = (None, sc')
       \<and> sequence_result (map (scaler_transform L sc') (rows numeric)) = Inr scaled
       \<and> train_test_split L
             (rows (set_columns (set_column X ''zone_id'' (map (encode (sort (remdups zones))) zones))
                      numerical_cols scaled)) y = Inl e"
  have t: "train L p g observations_df stops_df routes_df
           = (Inl e, p\<lparr>label_encoder := Some (sort (remdups zones)), scaler := sc'\<rparr>,
              snd (prepare_features g observations_df stops_df routes_df))"
    by (rule train_split_failure [where df = df and X = X and y = y and numeric = numeric
          and scaled = scaled]) (use a in blast)+
  show "fst (train L p g observations_df stops_df routes_df) = Inl e"
    by (simp add: t)
  show "fst (snd (train L p g observations_df stops_df routes_df))
              = p\<lparr>label_encoder := Some (sort (remdups zones)), scaler := sc'\<rparr>"
    by (simp add: t)
  show "model (fst (snd (train L p g observations_df stops_df routes_df))) = model p"
    by (simp add: t)
  show "is_trained (fst (snd (train L p g observations_df stops_df routes_df))) = is_trained p"
    by (simp add: t)
qed

lemma demo_table_join:
  "fst (prepare_features rng0 (observations_frame (observations demo_db)) demo_stops_df
          demo_routes_df) = Inl (KeyError ''route_id'')"
  by (simp add: prepare_features_def join_tables_def observations_frame_def demo_db_def
        DataFrame_of_def demo_frames merge_left_def bind_result_def observe_def cell_at_def
        Let_def opt_str_def opt_num_def)

text \<open>
  C1 as stated fails. A predictor trained on zone \<open>A\<close> is retrained on three
  observations of zone \<open>B\<close> whose level \<open>packed\<close> occurs once; the stratified
  split raises, and the bundle is left with the new encoder and scaler and the old
  classifier and flag. The prediction for a stop of zone \<open>A\<close> that worked before the
  call is now rejected.
\<close>

theorem failed_training_changes_encoder:
  "fst (train demo_library trained_demo rng0 cx_observations_df demo_stops_df demo_routes_df)
     = Inl split_error
   \<and> cx_predictor \<noteq> trained_demo
   \<and> label_encoder trained_demo = Some [''A'']
   \<and> label_encoder cx_predictor = Some [''B'']
   \<and> model cx_predictor = model trained_demo
   \<and> is_trained cx_predictor
   \<and> predict demo_library trained_demo demo_db ''t1'' ''s1'' ''08:00:00'' ''2024-01-15''
       = Inr (StrV ''light'', 1, default_feature_columns)
   \<and> predict demo_library cx_predictor demo_db ''t1'' ''s1'' ''08:00:00'' ''2024-01-15''
       = Inl (ValueError ''y contains previously unseen labels'')"
proof -
  have c: "cx_predictor
             = trained_demo\<lparr>label_encoder := Some [''B''], scaler := map numeric_row [1, 2, 3]\<rparr>"
    by (simp add: cx_predictor_def cx_train)
  have n: "cx_predictor \<noteq> trained_demo"
    by (simp add: c trained_demo_def)
  have p2: "predict demo_library cx_predictor demo_db ''t1'' ''s1'' ''08:00:00'' ''2024-01-15''
       = Inl (ValueError ''y contains previously unseen labels'')"
    unfolding c by (rule cx_prediction)
  have f: "label_encoder trained_demo = Some [''A'']" "label_encoder cx_predictor = Some [''B'']"
    "model cx_predictor = model trained_demo" "is_trained cx_predictor"
    by (simp_all add: c trained_demo_def)
  show ?thesis
    using n p2 f by (simp add: cx_train demo_prediction)
qed

theorem failed_training_partial_update_witness:
  "fst (prepare_features rng0 (observations_frame (observations demo_db)) demo_stops_df
          demo_routes_df) = Inl (KeyError ''route_id'')
   \<and> fst (snd (train demo_library trained_demo rng0 (observations_frame (observations demo_db))
                  demo_stops_df demo_routes_df)) = trained_demo
   \<and> fst (prepare_features rng0 cx_observations_df demo_stops_df demo_routes_df) = Inr cx_prepared
   \<and> select_columns cx_prepared (feature_columns trained_demo) = Inr (cx_features (StrV ''B''))
   \<and> get_column cx_prepared ''crowd_level'' = Inr cx_labels
   \<and> get_column (cx_features (StrV ''B'')) ''zone_id'' = Inr (map StrV [''B'', ''B'', ''B''])
   \<and> select_columns (set_column (cx_features (StrV ''B'')) ''zone_id''
          (map (encode (sort (remdups [''B'', ''B'', ''B'']))) [''B'', ''B'', ''B'']))
        numerical_cols = Inr \<lparr>columns = numerical_cols, rows = map numeric_row [1, 2, 3]\<rparr>
   \<and> scaler_fit demo_library (scaler trained_demo)
         (rows \<lparr>columns = numerical_cols, rows = map numeric_row [1, 2, 3]\<rparr>)
       = (None, map numeric_row [1, 2, 3])
   \<and> sequence_result (map (scaler_transform demo_library (map numeric_row [1, 2, 3]))
         (rows \<lparr>columns = numerical_cols, rows = map numeric_row [1, 2, 3]\<rparr>))
       = Inr (map numeric_row [1, 2, 3])
   \<and> train_test_split demo_library
         (rows (set_columns (set_column (cx_features (StrV ''B'')) ''zone_id''
                  (map (encode (sort (remdups [''B'', ''B'', ''B'']))) [''B'', ''B'', ''B'']))
                  numerical_cols (map numeric_row [1, 2, 3]))) cx_labels = Inl split_error
   \<and> fst (snd (train demo_library trained_demo rng0 cx_observations_df demo_stops_df demo_routes_df))
       = trained_demo\<lparr>label_encoder := Some (sort (remdups [''B'', ''B'', ''B''])),
                      scaler := map numeric_row [1, 2, 3]\<rparr>"
proof -
  have f: "feature_columns trained_demo = default_feature_columns"
    by (simp add: trained_demo_def)
  have h1: "fst (prepare_features rng0 cx_observations_df demo_stops_df demo_routes_df) = Inr cx_prepared"
    by (simp add: cx_prepare)
  have h2: "select_columns cx_prepared (feature_columns trained_demo) = Inr (cx_features (StrV ''B''))"
    by (simp add: f cx_select)
  have h5: "select_columns (set_column (cx_features (StrV ''B'')) ''zone_id''
             (map (encode (sort (remdups [''B'', ''B'', ''B'']))) [''B'', ''B'', ''B'']))
           numerical_cols = Inr \<lparr>columns = numerical_cols, rows = map numeric_row [1, 2, 3]\<rparr>"
    by (simp only: cx_encoded cx_numeric)
  have h6: "scaler_fit demo_library (scaler trained_demo)
            (rows \<lparr>columns = numerical_cols, rows = map numeric_row [1, 2, 3]\<rparr>)
          = (None, map numeric_row [1, 2, 3])"
    by (simp add: demo_library_simps del: list.map)
  have h7: "sequence_result (map (scaler_transform demo_library (map numeric_row [1, 2, 3]))
            (rows \<lparr>columns = numerical_cols, rows = map numeric_row [1, 2, 3]\<rparr>))
          = Inr (map numeric_row [1, 2, 3])"
    by (simp add: demo_transform del: list.map map_map)
  have h8: "train_test_split demo_library
           (rows (set_columns (set_column (cx_features (StrV ''B'')) ''zone_id''
                    (map (encode (sort (remdups [''B'', ''B'', ''B'']))) [''B'', ''B'', ''B'']))
                    numerical_cols (map numeric_row [1, 2, 3]))) cx_labels = Inl split_error"
    by (simp only: cx_encoded cx_rescaled demo_library_simps cx_split)
  note prep = failed_training_partial_update
      [where g = rng0 and observations_df = "observations_frame (observations demo_db)"
         and stops_df = demo_stops_df and routes_df = demo_routes_df
         and e = "KeyError ''route_id''" and L = demo_library and p = trained_demo,
       THEN conjunct1, rule_format, OF demo_table_join]
  note split = failed_training_partial_update
      [where g = rng0 and observations_df = cx_observations_df
         and stops_df = demo_stops_df and routes_df = demo_routes_df
         and e = split_error and L = demo_library and p = trained_demo
         and df = cx_prepared and X = "cx_features (StrV ''B'')" and y = cx_labels
         and zones = "[''B'', ''B'', ''B'']"
         and numeric = "\<lparr>columns = numerical_cols, rows = map numeric_row [1, 2, 3]\<rparr>"
         and sc' = "map numeric_row [1, 2, 3]" and scaled = "map numeric_row [1, 2, 3]",
       THEN conjunct2, rule_format,
       OF conjI [OF h1 conjI [OF h2 conjI [OF cx_target conjI [OF cx_zone_column
            conjI [OF h5 conjI [OF h6 conjI [OF h7 h8]]]]]]]]
  show ?thesis
    by (intro conjI demo_table_join prep h1 h2 cx_target cx_zone_column h5 h6 h7 h8
          split [THEN conjunct2, THEN conjunct1])
qed

lemma first_draws:
  "get_amenities_features rng_mixed demo_stops_df = (Inr (amenities_with 0), rng_mixed\<lparr>pos := 8\<rparr>)"
  by (simp add: get_amenities_features_def demo_frames select_columns_def bind_result_def
        cell_at_def random_choice_def rng_mixed_def set_column_def Let_def upt_rec
        amenities_with_def)

lemma second_draws:
  "get_amenities_features (rng_mixed\<lparr>pos := 8\<rparr>) demo_stops_df
     = (Inr (amenities_with 1), rng_mixed\<lparr>pos := 16\<rparr>)"
  by (simp add: get_amenities_features_def demo_frames select_columns_def bind_result_def
        cell_at_def random_choice_def rng_mixed_def set_column_def Let_def upt_rec
        amenities_with_def)

lemma cx_fill_with:
  "fill_missing
     \<lparr>columns = joined_columns @ [''hour'', ''day_of_week'', ''month'', ''is_weekend'', ''is_holiday''],
      rows = map (\<lambda>r. take 16 (cx_prepared_row r)) (rows cx_observations_df)\<rparr>
     (amenities_with a)
   = Inr (cx_prepared_with a)"
  by (simp add: fill_missing_def merge_left_def cx_observations_df_def training_columns_def
        training_row_def cell_at_def bind_result_def get_column_def set_column_def
        fillna_column_def fillna_def joined_columns_def cx_prepared_row_def cx_prepared_with_def
        prepared_columns_def Let_def amenities_with_def)

lemma first_run:
  "prepare_features rng_mixed cx_observations_df demo_stops_df demo_routes_df
     = (Inr (cx_prepared_with 0), rng_mixed\<lparr>pos := 8\<rparr>)"
  by (simp add: prepare_features_def cx_join first_draws cx_fill_with)

lemma second_run:
  "prepare_features (rng_mixed\<lparr>pos := 8\<rparr>) cx_observations_df demo_stops_df demo_routes_df
     = (Inr (cx_prepared_with 1), rng_mixed\<lparr>pos := 16\<rparr>)"
  by (simp add: prepare_features_def cx_join second_draws cx_fill_with)

lemma cx_shelter: "get_column (cx_prepared_with a) ''has_shelter'' = Inr [IntV a, IntV a, IntV a]"
  by (simp add: get_column_def cx_prepared_with_def prepared_columns_def joined_columns_def
        training_columns_def cell_at_def cx_prepared_row_def cx_observations_df_def
        training_row_def)

text \<open>
  C4. The claim: without amenity records the four amenity flags are 0, never a random
  draw, so two feature preparations of the same tables give the same feature table. In the
  code \<open>_get_amenities_features\<close> draws every flag with \<open>np.random.choice\<close>.
  Two runs in a row over the same three tables, along one stream of the generator: the first
  run gets the flags 0, the second gets 1 for every flag, and the two feature tables
  differ (\<open>predict\<close>, for its part, does put 0 in the four flags).
\<close>

theorem amenity_flags_are_random_draws:
  "fst (prepare_features rng_mixed cx_observations_df demo_stops_df demo_routes_df)
     = Inr (cx_prepared_with 0)
   \<and> fst (prepare_features
            (snd (prepare_features rng_mixed cx_observations_df demo_stops_df demo_routes_df))
            cx_observations_df demo_stops_df demo_routes_df)
       = Inr (cx_prepared_with 1)
   \<and> cx_prepared_with 1 \<noteq> cx_prepared_with 0
   \<and> get_column (cx_prepared_with 1) ''has_shelter'' = Inr [IntV 1, IntV 1, IntV 1]
   \<and> get_column (cx_prepared_with 1) ''has_washroom'' \<noteq> Inr [IntV 0, IntV 0, IntV 0]"
proof -
  have d: "cx_prepared_with 1 \<noteq> cx_prepared_with 0"
  proof
    assume "cx_prepared_with 1 = cx_prepared_with 0"
    then have "get_column (cx_prepared_with 1) ''has_shelter''
                 = get_column (cx_prepared_with 0) ''has_shelter''"
      by simp
    then show False by (simp add: cx_shelter)
  qed
  have w: "get_column (cx_prepared_with 1) ''has_washroom'' = Inr [IntV 1, IntV 1, IntV 1]"
    by (simp add: get_column_def cx_prepared_with_def prepared_columns_def joined_columns_def
        training_columns_def cell_at_def cx_prepared_row_def cx_observations_df_def
        training_row_def)
  show ?thesis
    using d by (simp add: first_run second_run cx_shelter w)
qed

text \<open>
When the store cannot be reached, \<open>invalidate_predictions\<close> changes nothing, so an
observation recorded then leaves every cache entry in place, for any state and any
observation.
\<close>

lemma invalidate_without_store:
  "\<not> reachable (redis_client c) \<Longrightarrow> invalidate_predictions c now trip stop = c"
  by (simp add: invalidate_predictions_def redis_keys_def)

lemma create_observation_without_store:
  "\<not> reachable (redis_client (cache w)) \<Longrightarrow>
     cache (snd (create_observation ob w)) = cache w"
  by (simp add: create_observation_def invalidate_without_store split: option.splits)
















lemma sequence_result_length:
  "sequence_result (map f xs) = Inr ys \<Longrightarrow> length ys = length xs"
  by (induction xs arbitrary: ys) (auto split: sum.splits)











end
